theory Spec2Isabelle
  imports Complex_Main
begin

section \<open>Values of the host language\<close>

text \<open>
  The program is TypeScript. A \<^verbatim>\<open>number\<close> that the code only ever counts with
  (score, combo, hits, misses, lives, level, millisecond time stamps) is an \<open>int\<close>; a
  \<^verbatim>\<open>number\<close> that may carry a fraction (the numeric settings, which are read from
  storage, the countdown that starts from one of them, coordinates, random draws) is a
  \<open>real\<close>. Arithmetic on these is exact, with one exception: the points of a hit go
  through \<^verbatim>\<open>Math.round\<close>, which turns the last bit of a double into a whole point, so
  there every operation is rounded as the machine rounds it (\<open>double\<close> below).
  A string is the list of its UTF-16 code units.
\<close>

type_synonym jsstring = "nat list"

definition str :: "string \<Rightarrow> jsstring" where
  "str s = map of_char s"

text \<open>\<^verbatim>\<open>Math.round\<close>: the nearest integer, a tie going up.\<close>

definition Math_round :: "real \<Rightarrow> int" where
  "Math_round v = \<lfloor>v + 1 / 2\<rfloor>"

text \<open>
  The double nearest to a real number: the number is scaled by a power of 2 until it lies
  in \<open>[2^52, 2^53)\<close>, rounded to a whole number, a tie going to the even one, and scaled
  back. The 2200 steps of scaling reach every magnitude a double has; overflow and the
  subnormal numbers, which no number of the game comes near, are not modelled. The result
  of an arithmetic operation of the program is the double of the exact result.
\<close>

definition pow2 :: "int \<Rightarrow> real" where
  "pow2 e = (if 0 \<le> e then 2 ^ nat e else 1 / 2 ^ nat (- e))"

fun normalise :: "nat \<Rightarrow> real \<Rightarrow> int \<Rightarrow> real \<times> int" where
  "normalise 0 m e = (m, e)"
| "normalise (Suc n) m e =
     (if 2 ^ 53 \<le> m then normalise n (m / 2) (e + 1)
      else if m < 2 ^ 52 then normalise n (m * 2) (e - 1)
      else (m, e))"

definition roundEven :: "real \<Rightarrow> int" where
  "roundEven m =
     (let n = \<lfloor>m\<rfloor>; f = m - real_of_int n
      in if f < 1 / 2 then n else if 1 / 2 < f then n + 1 else if even n then n else n + 1)"

definition double :: "real \<Rightarrow> real" where
  "double v =
     (if v = 0 then 0
      else case normalise 2200 \<bar>v\<bar> 0 of
             (m, e) \<Rightarrow> sgn v * real_of_int (roundEven m) * pow2 e)"

text \<open>
  An untyped value as \<^verbatim>\<open>JSON.parse\<close> (or any caller) can hand it over. Numbers
  keep the three values that are not finite, since \<^verbatim>\<open>safeNum\<close> tests for one of them.
  An object is the list of its own properties; the first entry of a key is the one a
  property read sees.
\<close>

datatype jsnum = NaN | PosInf | NegInf | Fin real

datatype jsval =
    JUndefined
  | JNull
  | JBool bool
  | JNum jsnum
  | JStr jsstring
  | JArr "jsval list"
  | JObj "(jsstring \<times> jsval) list"

fun typeof :: "jsval \<Rightarrow> jsstring" where
  "typeof JUndefined = str ''undefined''"
| "typeof JNull = str ''object''"
| "typeof (JBool _) = str ''boolean''"
| "typeof (JNum _) = str ''number''"
| "typeof (JStr _) = str ''string''"
| "typeof (JArr _) = str ''object''"
| "typeof (JObj _) = str ''object''"

text \<open>Truthiness, as \<^verbatim>\<open>!data\<close> tests it.\<close>

fun truthy :: "jsval \<Rightarrow> bool" where
  "truthy JUndefined = False"
| "truthy JNull = False"
| "truthy (JBool b) = b"
| "truthy (JNum NaN) = False"
| "truthy (JNum (Fin v)) = (v \<noteq> 0)"
| "truthy (JNum _) = True"
| "truthy (JStr s) = (s \<noteq> [])"
| "truthy (JArr _) = True"
| "truthy (JObj _) = True"

text \<open>
  A property read \<^verbatim>\<open>data.key\<close> for the keys of the settings: an object answers with
  its property or \<^verbatim>\<open>undefined\<close>; an array has none of these keys.
\<close>

fun getProp :: "jsval \<Rightarrow> jsstring \<Rightarrow> jsval" where
  "getProp (JObj ps) k = (case map_of ps k of Some v \<Rightarrow> v | None \<Rightarrow> JUndefined)"
| "getProp _ k = JUndefined"


section \<open>types.ts\<close>

datatype Difficulty = EASY | NORMAL | HARD | CUSTOM

datatype GameMode = TIME_TRIAL | SURVIVAL

datatype ScreenMode = FULL | BOARD | COMPACT

datatype CrosshairType = dot | cross | circle | plus

text \<open>The string each enum member stands for; an enum object is the table of them.\<close>

definition Difficulty_enum :: "(jsstring \<times> Difficulty) list" where
  "Difficulty_enum =
     [(str ''Easy'', EASY), (str ''Normal'', NORMAL), (str ''Hard'', HARD),
      (str ''Custom'', CUSTOM)]"

definition GameMode_enum :: "(jsstring \<times> GameMode) list" where
  "GameMode_enum = [(str ''Contrarreloj'', TIME_TRIAL), (str ''Supervivencia'', SURVIVAL)]"

definition ScreenMode_enum :: "(jsstring \<times> ScreenMode) list" where
  "ScreenMode_enum =
     [(str ''Pantalla Completa'', FULL),
      (str ''Pizarra (Est'' @ [225] @ str ''ndar)'', BOARD),
      (str ''Compacto'', COMPACT)]"

definition CrosshairType_enum :: "(jsstring \<times> CrosshairType) list" where
  "CrosshairType_enum =
     [(str ''dot'', dot), (str ''cross'', cross), (str ''circle'', circle),
      (str ''plus'', plus)]"

fun Difficulty_str :: "Difficulty \<Rightarrow> jsstring" where
  "Difficulty_str EASY = str ''Easy''"
| "Difficulty_str NORMAL = str ''Normal''"
| "Difficulty_str HARD = str ''Hard''"
| "Difficulty_str CUSTOM = str ''Custom''"

fun GameMode_str :: "GameMode \<Rightarrow> jsstring" where
  "GameMode_str TIME_TRIAL = str ''Contrarreloj''"
| "GameMode_str SURVIVAL = str ''Supervivencia''"

fun ScreenMode_str :: "ScreenMode \<Rightarrow> jsstring" where
  "ScreenMode_str FULL = str ''Pantalla Completa''"
| "ScreenMode_str BOARD = str ''Pizarra (Est'' @ [225] @ str ''ndar)''"
| "ScreenMode_str COMPACT = str ''Compacto''"

fun CrosshairType_str :: "CrosshairType \<Rightarrow> jsstring" where
  "CrosshairType_str dot = str ''dot''"
| "CrosshairType_str cross = str ''cross''"
| "CrosshairType_str circle = str ''circle''"
| "CrosshairType_str plus = str ''plus''"

record GameSettings =
  gameMode :: GameMode
  screenMode :: ScreenMode
  difficulty :: Difficulty
  bubbleSize :: real
  spawnDelay :: real
  duration :: real
  soundEnabled :: bool
  sensitivity :: real
  crosshairType :: CrosshairType
  crosshairColor :: jsstring

record GameStats =
  score :: int
  combo :: int
  maxCombo :: int
  hits :: int
  misses :: int
  timeLeft :: real
  lives :: int
  level :: int
  isPlaying :: bool

record Position =
  x :: real
  y :: real


section \<open>services/storageService.ts\<close>

definition DEFAULT_SETTINGS :: GameSettings where
  "DEFAULT_SETTINGS =
     \<lparr> gameMode = TIME_TRIAL, screenMode = BOARD, difficulty = NORMAL,
       bubbleSize = 60, spawnDelay = 200, duration = 60, soundEnabled = True,
       sensitivity = 1, crosshairType = dot, crosshairColor = str ''#6366f1'' \<rparr>"

text \<open>
  \<^verbatim>\<open>safeEnum\<close>: the value if the enum object has it, the default otherwise. Only a
  string can be among the values of a string enum.
\<close>

fun safeEnum :: "jsval \<Rightarrow> (jsstring \<times> 'a) list \<Rightarrow> 'a \<Rightarrow> 'a" where
  "safeEnum (JStr s) enumObj defaultVal =
     (case map_of enumObj s of Some v \<Rightarrow> v | None \<Rightarrow> defaultVal)"
| "safeEnum _ enumObj defaultVal = defaultVal"

text \<open>
  \<^verbatim>\<open>safeNum\<close>: the default unless the value is a number other than NaN, and then
  \<^verbatim>\<open>Math.max(min, Math.min(max, val))\<close>, which the two infinities go through as well.
\<close>

fun safeNum :: "jsval \<Rightarrow> real \<Rightarrow> real \<Rightarrow> real \<Rightarrow> real" where
  "safeNum (JNum NaN) lo hi defaultVal = defaultVal"
| "safeNum (JNum PosInf) lo hi defaultVal = max lo hi"
| "safeNum (JNum NegInf) lo hi defaultVal = lo"
| "safeNum (JNum (Fin v)) lo hi defaultVal = max lo (min hi v)"
| "safeNum _ lo hi defaultVal = defaultVal"

fun safeBool :: "jsval \<Rightarrow> bool \<Rightarrow> bool" where
  "safeBool (JBool b) defaultVal = b"
| "safeBool _ defaultVal = defaultVal"

text \<open>A colour is kept when it is a string that starts with \<^verbatim>\<open>#\<close> and has at most 7 units.\<close>

definition colorOk :: "jsstring \<Rightarrow> bool" where
  "colorOk s = ((case s of [] \<Rightarrow> False | c # _ \<Rightarrow> c = 35) \<and> length s \<le> 7)"

fun safeColor :: "jsval \<Rightarrow> jsstring \<Rightarrow> jsstring" where
  "safeColor (JStr s) defaultVal = (if colorOk s then s else defaultVal)"
| "safeColor _ defaultVal = defaultVal"

definition validateSettings :: "jsval \<Rightarrow> GameSettings" where
  "validateSettings data =
     (if \<not> truthy data \<or> typeof data \<noteq> str ''object'' then DEFAULT_SETTINGS
      else
        \<lparr> gameMode = safeEnum (getProp data (str ''gameMode'')) GameMode_enum
                       (gameMode DEFAULT_SETTINGS),
          screenMode = safeEnum (getProp data (str ''screenMode'')) ScreenMode_enum
                         (screenMode DEFAULT_SETTINGS),
          difficulty = safeEnum (getProp data (str ''difficulty'')) Difficulty_enum
                         (difficulty DEFAULT_SETTINGS),
          bubbleSize = safeNum (getProp data (str ''bubbleSize'')) 10 300
                         (bubbleSize DEFAULT_SETTINGS),
          spawnDelay = safeNum (getProp data (str ''spawnDelay'')) 0 5000
                         (spawnDelay DEFAULT_SETTINGS),
          duration = safeNum (getProp data (str ''duration'')) 5 3600
                       (duration DEFAULT_SETTINGS),
          soundEnabled = safeBool (getProp data (str ''soundEnabled''))
                           (soundEnabled DEFAULT_SETTINGS),
          sensitivity = safeNum (getProp data (str ''sensitivity'')) (1 / 10) 10
                          (sensitivity DEFAULT_SETTINGS),
          crosshairType = safeEnum (getProp data (str ''crosshairType'')) CrosshairType_enum
                            (crosshairType DEFAULT_SETTINGS),
          crosshairColor = safeColor (getProp data (str ''crosshairColor''))
                             (crosshairColor DEFAULT_SETTINGS) \<rparr>)"

text \<open>
  A settings value seen as an untyped value again: the object that
  \<^verbatim>\<open>validateSettings\<close> returns, with each enum member as its string.
\<close>

definition settingsObject :: "GameSettings \<Rightarrow> jsval" where
  "settingsObject s =
     JObj [(str ''gameMode'', JStr (GameMode_str (gameMode s))),
           (str ''screenMode'', JStr (ScreenMode_str (screenMode s))),
           (str ''difficulty'', JStr (Difficulty_str (difficulty s))),
           (str ''bubbleSize'', JNum (Fin (bubbleSize s))),
           (str ''spawnDelay'', JNum (Fin (spawnDelay s))),
           (str ''duration'', JNum (Fin (duration s))),
           (str ''soundEnabled'', JBool (soundEnabled s)),
           (str ''sensitivity'', JNum (Fin (sensitivity s))),
           (str ''crosshairType'', JStr (CrosshairType_str (crosshairType s))),
           (str ''crosshairColor'', JStr (crosshairColor s))]"

text \<open>The documented range of every field.\<close>

definition inRange :: "GameSettings \<Rightarrow> bool" where
  "inRange s =
     (10 \<le> bubbleSize s \<and> bubbleSize s \<le> 300 \<and>
      0 \<le> spawnDelay s \<and> spawnDelay s \<le> 5000 \<and>
      5 \<le> duration s \<and> duration s \<le> 3600 \<and>
      1 / 10 \<le> sensitivity s \<and> sensitivity s \<le> 10 \<and>
      GameMode_str (gameMode s) \<in> fst ` set GameMode_enum \<and>
      ScreenMode_str (screenMode s) \<in> fst ` set ScreenMode_enum \<and>
      Difficulty_str (difficulty s) \<in> fst ` set Difficulty_enum \<and>
      CrosshairType_str (crosshairType s) \<in> fst ` set CrosshairType_enum \<and>
      colorOk (crosshairColor s))"

text \<open>
  What \<^verbatim>\<open>validateSettings\<close> asks of a field before it looks at a range: a number
  other than NaN, a member of the enum, a boolean, a colour that passes \<open>colorOk\<close>.
  A field that is missing reads as \<^verbatim>\<open>undefined\<close> and is none of them.
\<close>

fun isNumber :: "jsval \<Rightarrow> bool" where
  "isNumber (JNum NaN) = False"
| "isNumber (JNum _) = True"
| "isNumber _ = False"

fun isMember :: "jsval \<Rightarrow> (jsstring \<times> 'a) list \<Rightarrow> bool" where
  "isMember (JStr s) enumObj = (map_of enumObj s \<noteq> None)"
| "isMember _ enumObj = False"

fun isBool :: "jsval \<Rightarrow> bool" where
  "isBool (JBool _) = True"
| "isBool _ = False"

fun isColor :: "jsval \<Rightarrow> bool" where
  "isColor (JStr s) = colorOk s"
| "isColor _ = False"


section \<open>App.tsx: what the handlers compute\<close>

record Rect =
  rx :: real
  ry :: real
  width :: real
  height :: real

text \<open>
  The size of the target: \<^verbatim>\<open>settings.bubbleSize\<close>, and in Survival
  \<^verbatim>\<open>Math.max(30, settings.bubbleSize - (gameStats.level * 2))\<close>.
\<close>

definition bubbleSizeAt :: "GameSettings \<Rightarrow> int \<Rightarrow> real" where
  "bubbleSizeAt settings lvl =
     (if gameMode settings = SURVIVAL then max 30 (bubbleSize settings - real_of_int lvl * 2)
      else bubbleSize settings)"

text \<open>
  \<^verbatim>\<open>updateBoardDimensions\<close>: the play area for a window of \<open>w\<close> by \<open>h\<close>.
\<close>

definition updateBoardDimensions :: "GameSettings \<Rightarrow> real \<Rightarrow> real \<Rightarrow> Rect" where
  "updateBoardDimensions settings w h =
     (if screenMode settings = BOARD then
        (let bw = min (w * (9 / 10)) 800; bh = min (h * (8 / 10)) 600
         in \<lparr> rx = (w - bw) / 2, ry = (h - bh) / 2, width = bw, height = bh \<rparr>)
      else if screenMode settings = COMPACT then
        (let bw = min (w * (8 / 10)) 500; bh = min (h * (6 / 10)) 400
         in \<lparr> rx = (w - bw) / 2, ry = (h - bh) / 2, width = bw, height = bh \<rparr>)
      else \<lparr> rx = 0, ry = 0, width = w, height = h \<rparr>)"

text \<open>
  \<^verbatim>\<open>spawnBubble\<close>, the part that computes: the position it draws from the two results
  \<open>r1\<close>, \<open>r2\<close> of \<^verbatim>\<open>Math.random()\<close>, for the play area and the level of the
  render it was made in. The size is a local of it and is not kept: the target is drawn
  and hit-tested with the size of the level at that later time (\<open>shownSize\<close> below).
\<close>

definition spawnPosition :: "Rect \<Rightarrow> GameSettings \<Rightarrow> int \<Rightarrow> real \<Rightarrow> real \<Rightarrow> Position" where
  "spawnPosition boardRect settings lvl r1 r2 =
     (let bx = rx boardRect; by = ry boardRect;
          size = bubbleSizeAt settings lvl;
          maxX = bx + width boardRect - size;
          maxY = by + height boardRect - size;
          randomX = max bx (r1 * (maxX - bx) + bx);
          randomY = max by (r2 * (maxY - by) + by)
      in \<lparr> x = randomX, y = randomY \<rparr>)"

text \<open>A square target of side \<open>sz\<close> at \<open>pos\<close> lies inside the play area.\<close>

definition targetInside :: "Rect \<Rightarrow> real \<Rightarrow> Position \<Rightarrow> bool" where
  "targetInside boardRect sz pos =
     (rx boardRect \<le> x pos \<and> x pos + sz \<le> rx boardRect + width boardRect \<and>
      ry boardRect \<le> y pos \<and> y pos + sz \<le> ry boardRect + height boardRect)"

text \<open>
  \<^verbatim>\<open>handleHit\<close>, the points: computed outside the state updater, from the
  \<^verbatim>\<open>gameStats\<close> and \<^verbatim>\<open>lastClickTime\<close> that the handler closes over, each
  operation with the rounding of a double; \<^verbatim>\<open>0.1\<close> is the double nearest to a tenth.
  The size of the target is never 0 (storage gives at least 10, the slider at least 20),
  so the division is the program's.
\<close>

definition speedBonus :: "int \<Rightarrow> int" where
  "speedBonus reactionTime = max 0 (100 - \<lfloor>double (real_of_int reactionTime / 10)\<rfloor>)"

definition sizeMultiplier :: "GameSettings \<Rightarrow> real" where
  "sizeMultiplier settings = double (150 / bubbleSize settings)"

definition comboMultiplier :: "GameStats \<Rightarrow> real" where
  "comboMultiplier gameStats = double (1 + double (real_of_int (combo gameStats) * double (1 / 10)))"

definition hitPoints :: "GameSettings \<Rightarrow> GameStats \<Rightarrow> int \<Rightarrow> int \<Rightarrow> int" where
  "hitPoints settings gameStats lastClickTime now =
     Math_round (double (double (real_of_int (100 + speedBonus (now - lastClickTime))
                                 * sizeMultiplier settings)
                         * comboMultiplier gameStats))"

text \<open>The updater that \<^verbatim>\<open>handleHit\<close> hands to \<^verbatim>\<open>setGameStats\<close>.\<close>

definition hitUpdater :: "GameSettings \<Rightarrow> int \<Rightarrow> GameStats \<Rightarrow> GameStats" where
  "hitUpdater settings points prev =
     (let newCombo = combo prev + 1;
          newLevel = (if gameMode settings = SURVIVAL \<and> newCombo mod 10 = 0
                      then level prev + 1 else level prev)
      in prev \<lparr> score := score prev + points, combo := newCombo,
                maxCombo := max (maxCombo prev) newCombo, hits := hits prev + 1,
                level := newLevel \<rparr>)"

text \<open>The delay before the next target, from the level the handler closes over.\<close>

definition nextDelay :: "GameSettings \<Rightarrow> GameStats \<Rightarrow> real" where
  "nextDelay settings gameStats =
     (if gameMode settings = SURVIVAL then max 0 (500 - real_of_int (level gameStats) * 50)
      else spawnDelay settings)"

text \<open>The updater of \<^verbatim>\<open>handleMiss\<close>, and whether it calls \<^verbatim>\<open>endGame\<close>.\<close>

definition missEnds :: "GameSettings \<Rightarrow> GameStats \<Rightarrow> bool" where
  "missEnds settings prev = (gameMode settings = SURVIVAL \<and> lives prev - 1 \<le> 0)"

definition missUpdater :: "GameSettings \<Rightarrow> GameStats \<Rightarrow> GameStats" where
  "missUpdater settings prev =
     (let newLives = lives prev - 1
      in if gameMode settings = SURVIVAL \<and> newLives \<le> 0
         then prev \<lparr> lives := 0, isPlaying := False, misses := misses prev + 1 \<rparr>
         else prev \<lparr> combo := 0, misses := misses prev + 1, lives := newLives,
                     score := max 0 (score prev - 50) \<rparr>)"

text \<open>The updater of the countdown in \<^verbatim>\<open>startTimer\<close>.\<close>

definition tickUpdater :: "GameStats \<Rightarrow> GameStats" where
  "tickUpdater prev =
     (if timeLeft prev \<le> 1 then prev \<lparr> timeLeft := 0, isPlaying := False \<rparr>
      else prev \<lparr> timeLeft := timeLeft prev - 1 \<rparr>)"

text \<open>The state that \<^verbatim>\<open>startGame\<close> sets, and the one the component mounts with.\<close>

definition startStats :: "GameSettings \<Rightarrow> GameStats" where
  "startStats settings =
     \<lparr> score = 0, combo = 0, maxCombo = 0, hits = 0, misses = 0,
       timeLeft = duration settings, lives = 3, level = 1, isPlaying = True \<rparr>"

definition mountStats :: GameStats where
  "mountStats =
     \<lparr> score = 0, combo = 0, maxCombo = 0, hits = 0, misses = 0,
       timeLeft = 0, lives = 3, level = 1, isPlaying = False \<rparr>"


section \<open>App.tsx: saving the score when a game ends\<close>

record ScoreRecord =
  rscore :: int
  rmaxCombo :: int
  raccuracy :: real
  rdifficulty :: Difficulty
  rmode :: GameMode
  rtags :: "string list"

text \<open>The accuracy the effect computes, and the one the component shows.\<close>

definition savedAccuracy :: "GameStats \<Rightarrow> real" where
  "savedAccuracy gameStats =
     (if hits gameStats + misses gameStats > 0
      then real_of_int (hits gameStats) / real_of_int (hits gameStats + misses gameStats) * 100
      else 0)"

definition accuracy :: "GameStats \<Rightarrow> real" where
  "accuracy gameStats =
     (if hits gameStats + misses gameStats = 0 then 100
      else real_of_int (hits gameStats) / real_of_int (hits gameStats + misses gameStats) * 100)"

definition tagsOf :: "GameSettings \<Rightarrow> GameStats \<Rightarrow> string list" where
  "tagsOf settings gameStats =
     (if savedAccuracy gameStats \<ge> 95 then [''Cirujano''] else []) @
     (if maxCombo gameStats \<ge> 30 then [''Ninja''] else []) @
     (if score gameStats > 50000 then [''Leyenda''] else []) @
     (if real_of_int (hits gameStats)
           / (if duration settings = 0 then 1 else duration settings) > 2
      then [''Flash''] else [])"

text \<open>
  The effect on \<^verbatim>\<open>gameStats.isPlaying\<close>: the record it hands to \<^verbatim>\<open>saveScore\<close>, or
  nothing. The id and the date of the record come from the clock and are left out.
\<close>

definition saveScoreEffect :: "GameSettings \<Rightarrow> GameStats \<Rightarrow> ScoreRecord option" where
  "saveScoreEffect settings gameStats =
     (if \<not> isPlaying gameStats \<and> hits gameStats > 0
      then Some \<lparr> rscore = score gameStats, rmaxCombo = maxCombo gameStats,
                  raccuracy = savedAccuracy gameStats, rdifficulty = difficulty settings,
                  rmode = gameMode settings, rtags = tagsOf settings gameStats \<rparr>
      else None)"


section \<open>App.tsx: the component as a state machine\<close>

text \<open>
  The state of the component that the game logic reads and writes. Of the timers,
  \<open>timerRef\<close> says whether the countdown interval is set, and \<open>spawnTimeouts\<close> holds
  the calls \<^verbatim>\<open>setTimeout(spawnBubble, ...)\<close> that have not fired yet, each as the play
  area and the level that its \<^verbatim>\<open>spawnBubble\<close> closes over; nothing in the program
  cancels one of those. \<open>bubbleObj\<close> numbers the position objects, so that two of them
  can be told apart as React does, by identity.

  \<^verbatim>\<open>handleGlobalClick\<close> is memoised by \<^verbatim>\<open>useCallback\<close> with the dependencies
  \<^verbatim>\<open>[gameStats.isPlaying, isPaused, bubblePos, settings, togglePause, isMobile, gameStats.level]\<close>:
  it is the function of the last render in which one of them changed, and the
  \<^verbatim>\<open>handleHit\<close> it calls is the one of that render. \<open>clickStats\<close>, \<open>clickLast\<close>
  and \<open>clickRect\<close> are the \<^verbatim>\<open>gameStats\<close>, \<^verbatim>\<open>lastClickTime\<close> and
  \<^verbatim>\<open>boardRect\<close> of that render, \<open>clickDeps\<close> the dependencies it was memoised with.
  The settings do not change while a game runs, so they and \<^verbatim>\<open>togglePause\<close>, which
  depends on \<^verbatim>\<open>isPlaying\<close> and \<^verbatim>\<open>isPaused\<close> only, add nothing to the dependencies.
  The effect of the expiry poll has the dependencies
  \<^verbatim>\<open>[gameStats.isPlaying, isPaused, bubblePos, bubbleSpawnTime, settings.gameMode, gameStats.level]\<close>;
  \<^verbatim>\<open>bubbleSpawnTime\<close> is written only together with \<^verbatim>\<open>bubblePos\<close>, so the poll is
  of the same render as \<^verbatim>\<open>handleGlobalClick\<close> and closes over the same play area.
\<close>

record App =
  gameStats :: GameStats
  isPaused :: bool
  bubblePos :: "Position option"
  bubbleObj :: nat
  bubbleSpawnTime :: int
  lastClickTime :: int
  boardRect :: Rect
  timerRef :: bool
  spawnTimeouts :: "(Rect \<times> int) list"
  clickStats :: GameStats
  clickLast :: int
  clickRect :: Rect
  clickDeps :: "bool \<times> bool \<times> nat option \<times> int"

definition clickDepsOf :: "App \<Rightarrow> bool \<times> bool \<times> nat option \<times> int" where
  "clickDepsOf a =
     (isPlaying (gameStats a), isPaused a,
      (case bubblePos a of None \<Rightarrow> None | Some _ \<Rightarrow> Some (bubbleObj a)),
      level (gameStats a))"

text \<open>The render after an event: the memoised handler is replaced if a dependency changed.\<close>

definition render :: "App \<Rightarrow> App" where
  "render a =
     (if clickDepsOf a = clickDeps a then a
      else a \<lparr> clickStats := gameStats a, clickLast := lastClickTime a,
               clickRect := boardRect a, clickDeps := clickDepsOf a \<rparr>)"

text \<open>
  The component as it mounts. The play area is empty until the window is measured, which
  the effect on mount and every resize of the window do (the event \<open>Resize\<close> below).
\<close>

definition mountApp :: App where
  "mountApp =
     \<lparr> gameStats = mountStats, isPaused = False, bubblePos = None, bubbleObj = 0,
       bubbleSpawnTime = 0, lastClickTime = 0,
       boardRect = \<lparr> rx = 0, ry = 0, width = 0, height = 0 \<rparr>,
       timerRef = False, spawnTimeouts = [],
       clickStats = mountStats, clickLast = 0,
       clickRect = \<lparr> rx = 0, ry = 0, width = 0, height = 0 \<rparr>,
       clickDeps = (False, False, None, 1) \<rparr>"

text \<open>
  The size the target is drawn with, and hit-tested with: that of the level of the
  render at hand.
\<close>

definition shownSize :: "GameSettings \<Rightarrow> App \<Rightarrow> real" where
  "shownSize settings a = bubbleSizeAt settings (level (gameStats a))"

text \<open>
  \<^verbatim>\<open>spawnBubble\<close>, the part that writes, for the instance that closes over the play
  area \<open>cRect\<close> and the level \<open>cLevel\<close>. It reads neither \<^verbatim>\<open>isPlaying\<close> nor
  \<^verbatim>\<open>isPaused\<close>.
\<close>

definition spawnBubble :: "GameSettings \<Rightarrow> Rect \<Rightarrow> int \<Rightarrow> int \<Rightarrow> real \<Rightarrow> real \<Rightarrow> App \<Rightarrow> App" where
  "spawnBubble settings cRect cLevel now r1 r2 a =
     a \<lparr> bubblePos := Some (spawnPosition cRect settings cLevel r1 r2),
         bubbleObj := bubbleObj a + 1, bubbleSpawnTime := now, lastClickTime := now \<rparr>"

definition startTimer :: "GameSettings \<Rightarrow> App \<Rightarrow> App" where
  "startTimer settings a = a \<lparr> timerRef := (gameMode settings = TIME_TRIAL) \<rparr>"

definition endGame :: "App \<Rightarrow> App" where
  "endGame a = a \<lparr> timerRef := False, bubblePos := None, isPaused := False \<rparr>"

text \<open>
  \<^verbatim>\<open>startGame\<close> is made anew in every render, so the \<^verbatim>\<open>spawnBubble\<close> it hands to
  \<^verbatim>\<open>setTimeout\<close> is the one of the render in which the button was pressed: its level
  is the one the statistics had before they are reset. Its own call of
  \<^verbatim>\<open>updateBoardDimensions\<close> measures the window again, which \<open>Resize\<close> has done.
\<close>

definition startGame :: "GameSettings \<Rightarrow> App \<Rightarrow> App" where
  "startGame settings a =
     startTimer settings
       (a \<lparr> isPaused := False, gameStats := startStats settings,
            spawnTimeouts := spawnTimeouts a @ [(boardRect a, level (gameStats a))] \<rparr>)"

text \<open>
  \<^verbatim>\<open>handleHit\<close> as an instance of the handler that closes over \<open>cStats\<close>,
  \<open>cLast\<close> and \<open>cRect\<close>; its \<^verbatim>\<open>spawnBubble\<close> is of the same render. \<open>r1\<close> and
  \<open>r2\<close> are drawn if the next target is spawned at once.
\<close>

definition handleHit :: "GameSettings \<Rightarrow> GameStats \<Rightarrow> int \<Rightarrow> Rect \<Rightarrow> int \<Rightarrow> real \<Rightarrow> real \<Rightarrow> App \<Rightarrow> App" where
  "handleHit settings cStats cLast cRect now r1 r2 a =
     (let points = hitPoints settings cStats cLast now;
          a1 = a \<lparr> gameStats := hitUpdater settings points (gameStats a), bubblePos := None \<rparr>
      in if nextDelay settings cStats > 0
         then a1 \<lparr> spawnTimeouts := spawnTimeouts a1 @ [(cRect, level cStats)] \<rparr>
         else spawnBubble settings cRect (level cStats) now r1 r2 a1)"

text \<open>
  \<^verbatim>\<open>handleMiss\<close>: all it does is in the updater it hands to \<^verbatim>\<open>setGameStats\<close>, also
  the call of \<^verbatim>\<open>endGame\<close>. React runs the updater at the render that follows the
  handler, so what \<^verbatim>\<open>endGame\<close> writes comes after whatever the caller of
  \<^verbatim>\<open>handleMiss\<close> has written in the same handler.
\<close>

definition handleMiss :: "GameSettings \<Rightarrow> App \<Rightarrow> App" where
  "handleMiss settings a =
     (let a1 = a \<lparr> gameStats := missUpdater settings (gameStats a) \<rparr>
      in if missEnds settings (gameStats a) then endGame a1 else a1)"

definition handleSurrender :: "App \<Rightarrow> App" where
  "handleSurrender a =
     endGame (a \<lparr> gameStats := (gameStats a) \<lparr> isPlaying := False, timeLeft := 0 \<rparr> \<rparr>)"

definition togglePause :: "GameSettings \<Rightarrow> App \<Rightarrow> App" where
  "togglePause settings a =
     (if \<not> isPlaying (gameStats a) then a
      else if isPaused a then startTimer settings (a \<lparr> isPaused := False \<rparr>)
      else a \<lparr> isPaused := True, timerRef := False \<rparr>)"

definition maxLifespan :: "GameStats \<Rightarrow> int" where
  "maxLifespan stats = max 600 (3000 - level stats * 150)"

text \<open>
  The events a game consists of. \<open>Resize\<close> is the window measured, at the mount and
  whenever it changes. \<open>Click\<close> is a mouse button on the desktop
  (\<^verbatim>\<open>handleGlobalClick\<close>), with whether the cursor is inside the target;
  \<open>TapBubble\<close> and \<open>TapBackground\<close> are the two touches of the mobile layout
  (\<^verbatim>\<open>handleMobileBubbleInteract\<close>, \<^verbatim>\<open>handleMobileBackgroundClick\<close>), whose handlers
  are made anew in every render; \<open>Tick\<close>, \<open>SpawnTimeout\<close> and \<open>Expire\<close> are the
  three timers firing, \<open>SpawnTimeout\<close> with the place in \<open>spawnTimeouts\<close> of the one
  that fires. The first number of an event is the time, the last two are the results of
  \<^verbatim>\<open>Math.random()\<close> if the event calls \<^verbatim>\<open>spawnBubble\<close>; they lie in \<open>[0, 1)\<close>, and
  an event with others does not happen. A device sends clicks or taps, not both; the
  machine takes either, and every concrete game below is one of clicks.

  What \<^verbatim>\<open>handleGlobalClick\<close> tests before it calls a handler (\<^verbatim>\<open>isPlaying\<close>,
  \<^verbatim>\<open>isPaused\<close>, \<^verbatim>\<open>bubblePos\<close>) are dependencies of it, so the memoised function
  sees their current values; what \<^verbatim>\<open>handleHit\<close> reads of \<^verbatim>\<open>gameStats\<close> beyond them
  it sees as of the render the function was made in. The countdown fires only while its
  interval is set, a timeout only if it is pending, and the expiry poll only while its
  effect is mounted: in Survival, in a running, unpaused game with a target. The poll calls
  \<^verbatim>\<open>handleMiss\<close> and then \<^verbatim>\<open>spawnBubble\<close>; the updater of the miss, and the
  \<^verbatim>\<open>endGame\<close> in it, run after both. The start button and the surrender button exist
  only without and with a running game.
\<close>

datatype Event =
    Start
  | Resize real real
  | Click int bool real real
  | TapBubble int real real
  | TapBackground
  | Tick
  | SpawnTimeout int nat real real
  | Expire int real real
  | Surrender
  | TogglePause

fun handle :: "GameSettings \<Rightarrow> Event \<Rightarrow> App \<Rightarrow> App" where
  "handle settings Start a =
     (if isPlaying (gameStats a) then a else startGame settings a)"
| "handle settings (Resize w h) a =
     a \<lparr> boardRect := updateBoardDimensions settings w h \<rparr>"
| "handle settings (Click now onBubble r1 r2) a =
     (if \<not> isPlaying (gameStats a) \<or> isPaused a then a
      else if bubblePos a \<noteq> None \<and> onBubble
           then handleHit settings (clickStats a) (clickLast a) (clickRect a) now r1 r2 a
           else handleMiss settings a)"
| "handle settings (TapBubble now r1 r2) a =
     (if \<not> isPlaying (gameStats a) \<or> isPaused a \<or> bubblePos a = None then a
      else handleHit settings (gameStats a) (lastClickTime a) (boardRect a) now r1 r2 a)"
| "handle settings TapBackground a =
     (if \<not> isPlaying (gameStats a) \<or> isPaused a then a else handleMiss settings a)"
| "handle settings Tick a =
     (if \<not> timerRef a then a
      else (if timeLeft (gameStats a) \<le> 1 then endGame a else a)
             \<lparr> gameStats := tickUpdater (gameStats a) \<rparr>)"
| "handle settings (SpawnTimeout now k r1 r2) a =
     (if k < length (spawnTimeouts a)
      then spawnBubble settings (fst (spawnTimeouts a ! k)) (snd (spawnTimeouts a ! k)) now r1 r2
             (a \<lparr> spawnTimeouts := take k (spawnTimeouts a) @ drop (Suc k) (spawnTimeouts a) \<rparr>)
      else a)"
| "handle settings (Expire now r1 r2) a =
     (if gameMode settings \<noteq> SURVIVAL \<or> \<not> isPlaying (gameStats a) \<or> isPaused a
         \<or> bubblePos a = None
      then a
      else if now - bubbleSpawnTime a > maxLifespan (gameStats a)
           then handleMiss settings
                  (spawnBubble settings (clickRect a) (level (gameStats a)) now r1 r2 a)
           else a)"
| "handle settings Surrender a =
     (if \<not> isPlaying (gameStats a) then a else handleSurrender a)"
| "handle settings TogglePause a = togglePause settings a"

fun drawsOk :: "Event \<Rightarrow> bool" where
  "drawsOk (Click now onBubble r1 r2) = (0 \<le> r1 \<and> r1 < 1 \<and> 0 \<le> r2 \<and> r2 < 1)"
| "drawsOk (TapBubble now r1 r2) = (0 \<le> r1 \<and> r1 < 1 \<and> 0 \<le> r2 \<and> r2 < 1)"
| "drawsOk (SpawnTimeout now k r1 r2) = (0 \<le> r1 \<and> r1 < 1 \<and> 0 \<le> r2 \<and> r2 < 1)"
| "drawsOk (Expire now r1 r2) = (0 \<le> r1 \<and> r1 < 1 \<and> 0 \<le> r2 \<and> r2 < 1)"
| "drawsOk _ = True"

definition step :: "GameSettings \<Rightarrow> App \<Rightarrow> Event \<Rightarrow> App" where
  "step settings a ev = (if drawsOk ev then render (handle settings ev a) else a)"

text \<open>The component after a list of events, from its mount.\<close>

definition run :: "GameSettings \<Rightarrow> Event list \<Rightarrow> App" where
  "run settings evs = foldl (step settings) mountApp evs"

text \<open>Hits in a row, each with the closure, the time and the draws of its own.\<close>

fun hitArgs :: "GameSettings \<Rightarrow> App \<Rightarrow> GameStats \<times> int \<times> Rect \<times> int \<times> real \<times> real \<Rightarrow> App" where
  "hitArgs settings a (cStats, cLast, cRect, now, r1, r2) =
     handleHit settings cStats cLast cRect now r1 r2 a"


section \<open>Invariants and sample games\<close>

text \<open>
  The flags agree: a paused game is a running one, and the countdown interval is set
  exactly while a TimeTrial game runs unpaused.
\<close>

definition flagsOk :: "GameSettings \<Rightarrow> App \<Rightarrow> bool" where
  "flagsOk settings a =
     ((isPaused a \<longrightarrow> isPlaying (gameStats a)) \<and>
      timerRef a = (gameMode settings = TIME_TRIAL \<and> isPlaying (gameStats a) \<and> \<not> isPaused a))"

text \<open>What holds of the statistics in every mode, in Survival, and in TimeTrial.\<close>

definition statsOk :: "GameStats \<Rightarrow> bool" where
  "statsOk s = (0 \<le> combo s \<and> combo s \<le> maxCombo s \<and> 0 \<le> hits s \<and> 0 \<le> misses s
                \<and> lives s \<le> 3 \<and> 1 \<le> level s)"

definition livesOk :: "GameStats \<Rightarrow> bool" where
  "livesOk s = (0 \<le> lives s \<and> (isPlaying s \<longrightarrow> 1 \<le> lives s))"

definition timeOk :: "GameStats \<Rightarrow> bool" where
  "timeOk s = (0 \<le> timeLeft s \<and> (isPlaying s \<longleftrightarrow> 0 < timeLeft s))"

text \<open>The state at the start of a list of events and after each of them.\<close>

fun states :: "GameSettings \<Rightarrow> App \<Rightarrow> Event list \<Rightarrow> App list" where
  "states settings a [] = [a]"
| "states settings a (ev # evs) = a # states settings (step settings a ev) evs"

text \<open>
  Settings and event lists for the concrete games below, all in a window of 1000 by 800,
  whose play area in the default screen mode is 800 by 600 at (100, 100).
\<close>

definition SURVIVAL_SETTINGS :: GameSettings where
  "SURVIVAL_SETTINGS = DEFAULT_SETTINGS \<lparr> gameMode := SURVIVAL \<rparr>"

definition HALF_SECOND_SETTINGS :: GameSettings where
  "HALF_SECOND_SETTINGS = validateSettings (JObj [(str ''duration'', JNum (Fin (11 / 2)))])"

definition lastLifeTrace :: "Event list" where
  "lastLifeTrace =
     [Resize 1000 800, Start, Click 10 False 0 0, Click 20 False 0 0, SpawnTimeout 100 0 0 0,
      Click 200 True 0 0]"

definition streakTrace :: "Event list" where
  "streakTrace =
     [Resize 1000 800, Start, Click 10 False 0 0, Click 20 False 0 0, SpawnTimeout 100 0 0 0,
      Click 200 True 0 0, SpawnTimeout 700 0 0 0, Click 800 True 0 0]"

definition staleTrace :: "Event list" where
  "staleTrace =
     [Resize 1000 800, Start, SpawnTimeout 100 0 0 0, Click 200 True 0 0,
      SpawnTimeout 400 0 0 0, Click 402 False 0 0]"

definition respawnTrace :: "Event list" where
  "respawnTrace =
     [Resize 1000 800, Start, SpawnTimeout 100 0 0 0, Click 200 True 0 0, Surrender]"

definition expiryTrace :: "Event list" where
  "expiryTrace =
     [Resize 1000 800, Start, Click 10 False 0 0, Click 20 False 0 0, SpawnTimeout 100 0 0 0]"

text \<open>
  A Survival game of ten hits in a row, which reaches level 2; the eleventh target appears,
  the player gives up and starts the next game.
\<close>

definition tenHits :: "Event list" where
  "tenHits =
     concat (map (\<lambda>t. [SpawnTimeout t 0 0 0, Click (t + 100) True 0 0])
       [1000, 2000, 3000, 4000, 5000, 6000, 7000, 8000, 9000, 10000])"

definition restartTrace :: "Event list" where
  "restartTrace =
     [Resize 1000 800, Start] @ tenHits @ [SpawnTimeout 11000 0 0 0, Surrender, Start]"


section \<open>Settings validation\<close>

lemma DEFAULT_SETTINGS_inRange: "inRange DEFAULT_SETTINGS"
  by (simp add: inRange_def DEFAULT_SETTINGS_def colorOk_def str_def
      GameMode_enum_def ScreenMode_enum_def Difficulty_enum_def CrosshairType_enum_def)

lemma safeNum_range: "lo \<le> hi \<Longrightarrow> lo \<le> d \<Longrightarrow> d \<le> hi \<Longrightarrow> lo \<le> safeNum v lo hi d \<and> safeNum v lo hi d \<le> hi"
  by (induction v lo hi d rule: safeNum.induct) auto

lemma safeColor_ok: "colorOk d \<Longrightarrow> colorOk (safeColor v d)"
  by (cases v) auto

lemma GameMode_str_member: "GameMode_str m \<in> fst ` set GameMode_enum"
  by (cases m) (simp_all add: GameMode_enum_def)

lemma ScreenMode_str_member: "ScreenMode_str m \<in> fst ` set ScreenMode_enum"
  by (cases m) (simp_all add: ScreenMode_enum_def)

lemma Difficulty_str_member: "Difficulty_str m \<in> fst ` set Difficulty_enum"
  by (cases m) (simp_all add: Difficulty_enum_def)

lemma CrosshairType_str_member: "CrosshairType_str m \<in> fst ` set CrosshairType_enum"
  by (cases m) (simp_all add: CrosshairType_enum_def)

lemma colorOk_default: "colorOk (str ''#6366f1'')"
  by (simp add: colorOk_def str_def)

lemma validateSettings_inRange: "inRange (validateSettings data)"
proof (cases "\<not> truthy data \<or> typeof data \<noteq> str ''object''")
  case True
  then show ?thesis
    using DEFAULT_SETTINGS_inRange by (simp add: validateSettings_def)
next
  case False
  then show ?thesis
    unfolding validateSettings_def inRange_def
    using safeNum_range [of 10 300 60 "getProp data (str ''bubbleSize'')"]
      safeNum_range [of 0 5000 200 "getProp data (str ''spawnDelay'')"]
      safeNum_range [of 5 3600 60 "getProp data (str ''duration'')"]
      safeNum_range [of "1/10" 10 1 "getProp data (str ''sensitivity'')"]
      safeColor_ok [OF colorOk_default, of "getProp data (str ''crosshairColor'')"]
    by (simp add: DEFAULT_SETTINGS_def GameMode_str_member ScreenMode_str_member
        Difficulty_str_member CrosshairType_str_member)
qed

lemma map_of_GameMode: "map_of GameMode_enum (GameMode_str m) = Some m"
  by (cases m) (simp_all add: GameMode_enum_def str_def)
lemma map_of_ScreenMode: "map_of ScreenMode_enum (ScreenMode_str m) = Some m"
  by (cases m) (simp_all add: ScreenMode_enum_def str_def)
lemma map_of_Difficulty: "map_of Difficulty_enum (Difficulty_str m) = Some m"
  by (cases m) (simp_all add: Difficulty_enum_def str_def)
lemma map_of_CrosshairType: "map_of CrosshairType_enum (CrosshairType_str m) = Some m"
  by (cases m) (simp_all add: CrosshairType_enum_def str_def)

lemma getProp_settingsObject:
  "getProp (settingsObject s) (str ''gameMode'') = JStr (GameMode_str (gameMode s))"
  "getProp (settingsObject s) (str ''screenMode'') = JStr (ScreenMode_str (screenMode s))"
  "getProp (settingsObject s) (str ''difficulty'') = JStr (Difficulty_str (difficulty s))"
  "getProp (settingsObject s) (str ''bubbleSize'') = JNum (Fin (bubbleSize s))"
  "getProp (settingsObject s) (str ''spawnDelay'') = JNum (Fin (spawnDelay s))"
  "getProp (settingsObject s) (str ''duration'') = JNum (Fin (duration s))"
  "getProp (settingsObject s) (str ''soundEnabled'') = JBool (soundEnabled s)"
  "getProp (settingsObject s) (str ''sensitivity'') = JNum (Fin (sensitivity s))"
  "getProp (settingsObject s) (str ''crosshairType'') = JStr (CrosshairType_str (crosshairType s))"
  "getProp (settingsObject s) (str ''crosshairColor'') = JStr (crosshairColor s)"
  by (simp_all add: settingsObject_def str_def)

lemma validateSettings_fixed:
  assumes "inRange s"
  shows "validateSettings (settingsObject s) = s"
proof -
  have obj: "truthy (settingsObject s)" "typeof (settingsObject s) = str ''object''"
    by (simp_all add: settingsObject_def)
  from assms show ?thesis
    unfolding validateSettings_def
    by (simp add: obj getProp_settingsObject map_of_GameMode map_of_ScreenMode
        map_of_Difficulty map_of_CrosshairType inRange_def)
qed

lemma invalid_num:
  "\<not> isNumber v \<Longrightarrow> safeNum v lo hi d = d"
  by (induction v lo hi d rule: safeNum.induct) simp_all

lemma invalid_enum:
  "\<not> isMember v enumObj \<Longrightarrow> safeEnum v enumObj d = d"
  by (cases v) auto

lemma invalid_bool:
  "\<not> isBool v \<Longrightarrow> safeBool v d = d"
  by (cases v) auto

lemma invalid_color:
  "\<not> isColor v \<Longrightarrow> safeColor v d = d"
  by (cases v) auto

lemma getProp_not_object:
  "\<not> truthy data \<or> typeof data \<noteq> str ''object'' \<Longrightarrow> getProp data k = JUndefined"
  by (cases data) (simp_all add: str_def)

lemma validateSettings_fields:
  "gameMode (validateSettings data) =
     safeEnum (getProp data (str ''gameMode'')) GameMode_enum (gameMode DEFAULT_SETTINGS)"
  "screenMode (validateSettings data) =
     safeEnum (getProp data (str ''screenMode'')) ScreenMode_enum (screenMode DEFAULT_SETTINGS)"
  "difficulty (validateSettings data) =
     safeEnum (getProp data (str ''difficulty'')) Difficulty_enum (difficulty DEFAULT_SETTINGS)"
  "bubbleSize (validateSettings data) =
     safeNum (getProp data (str ''bubbleSize'')) 10 300 (bubbleSize DEFAULT_SETTINGS)"
  "spawnDelay (validateSettings data) =
     safeNum (getProp data (str ''spawnDelay'')) 0 5000 (spawnDelay DEFAULT_SETTINGS)"
  "duration (validateSettings data) =
     safeNum (getProp data (str ''duration'')) 5 3600 (duration DEFAULT_SETTINGS)"
  "soundEnabled (validateSettings data) =
     safeBool (getProp data (str ''soundEnabled'')) (soundEnabled DEFAULT_SETTINGS)"
  "sensitivity (validateSettings data) =
     safeNum (getProp data (str ''sensitivity'')) (1 / 10) 10 (sensitivity DEFAULT_SETTINGS)"
  "crosshairType (validateSettings data) =
     safeEnum (getProp data (str ''crosshairType'')) CrosshairType_enum
       (crosshairType DEFAULT_SETTINGS)"
  "crosshairColor (validateSettings data) =
     safeColor (getProp data (str ''crosshairColor'')) (crosshairColor DEFAULT_SETTINGS)"
  by (auto simp: validateSettings_def getProp_not_object)

text \<open>
  C8, as stated, fails for a number outside its range: a stored \<^verbatim>\<open>bubbleSize\<close> of 500
  comes back as 300, the upper bound, and not as the default, 60.
\<close>

theorem out_of_range_counterexample:
  "isNumber (JNum (Fin 500)) \<and>
   bubbleSize (validateSettings (JObj [(str ''bubbleSize'', JNum (Fin 500))])) = 300 \<and>
   bubbleSize DEFAULT_SETTINGS = 60"
  by (simp add: validateSettings_def DEFAULT_SETTINGS_def str_def)

text \<open>
  C8, amended. \<^verbatim>\<open>validateSettings\<close> answers every input value with settings whose fields
  all lie in their documented ranges (bubbleSize in [10,300], spawnDelay in [0,5000],
  duration in [5,3600], sensitivity in [0.1,10], every enum a member, the colour a short
  \<^verbatim>\<open>#\<close> string); a field that is missing, of the wrong type or not a member is replaced
  by its default, and a number outside its range by the nearest bound of the range, each
  whatever the other fields are; and validating the validated settings again changes
  nothing.
\<close>

theorem validateSettings_inRange_default_idempotent:
  "inRange (validateSettings data) \<and>
   validateSettings (settingsObject (validateSettings data)) = validateSettings data \<and>
   (\<not> isMember (getProp data (str ''gameMode'')) GameMode_enum \<longrightarrow>
      gameMode (validateSettings data) = gameMode DEFAULT_SETTINGS) \<and>
   (\<not> isMember (getProp data (str ''screenMode'')) ScreenMode_enum \<longrightarrow>
      screenMode (validateSettings data) = screenMode DEFAULT_SETTINGS) \<and>
   (\<not> isMember (getProp data (str ''difficulty'')) Difficulty_enum \<longrightarrow>
      difficulty (validateSettings data) = difficulty DEFAULT_SETTINGS) \<and>
   (\<not> isNumber (getProp data (str ''bubbleSize'')) \<longrightarrow>
      bubbleSize (validateSettings data) = bubbleSize DEFAULT_SETTINGS) \<and>
   (\<not> isNumber (getProp data (str ''spawnDelay'')) \<longrightarrow>
      spawnDelay (validateSettings data) = spawnDelay DEFAULT_SETTINGS) \<and>
   (\<not> isNumber (getProp data (str ''duration'')) \<longrightarrow>
      duration (validateSettings data) = duration DEFAULT_SETTINGS) \<and>
   (\<not> isBool (getProp data (str ''soundEnabled'')) \<longrightarrow>
      soundEnabled (validateSettings data) = soundEnabled DEFAULT_SETTINGS) \<and>
   (\<not> isNumber (getProp data (str ''sensitivity'')) \<longrightarrow>
      sensitivity (validateSettings data) = sensitivity DEFAULT_SETTINGS) \<and>
   (\<not> isMember (getProp data (str ''crosshairType'')) CrosshairType_enum \<longrightarrow>
      crosshairType (validateSettings data) = crosshairType DEFAULT_SETTINGS) \<and>
   (\<not> isColor (getProp data (str ''crosshairColor'')) \<longrightarrow>
      crosshairColor (validateSettings data) = crosshairColor DEFAULT_SETTINGS) \<and>
   (getProp data (str ''bubbleSize'') = JNum (Fin v) \<longrightarrow>
      bubbleSize (validateSettings data) = max 10 (min 300 v)) \<and>
   (getProp data (str ''spawnDelay'') = JNum (Fin v) \<longrightarrow>
      spawnDelay (validateSettings data) = max 0 (min 5000 v)) \<and>
   (getProp data (str ''duration'') = JNum (Fin v) \<longrightarrow>
      duration (validateSettings data) = max 5 (min 3600 v)) \<and>
   (getProp data (str ''sensitivity'') = JNum (Fin v) \<longrightarrow>
      sensitivity (validateSettings data) = max (1 / 10) (min 10 v)) \<and>
   (getProp data (str ''bubbleSize'') = JNum PosInf \<longrightarrow> bubbleSize (validateSettings data) = 300) \<and>
   (getProp data (str ''bubbleSize'') = JNum NegInf \<longrightarrow> bubbleSize (validateSettings data) = 10) \<and>
   (getProp data (str ''spawnDelay'') = JNum PosInf \<longrightarrow> spawnDelay (validateSettings data) = 5000) \<and>
   (getProp data (str ''spawnDelay'') = JNum NegInf \<longrightarrow> spawnDelay (validateSettings data) = 0) \<and>
   (getProp data (str ''duration'') = JNum PosInf \<longrightarrow> duration (validateSettings data) = 3600) \<and>
   (getProp data (str ''duration'') = JNum NegInf \<longrightarrow> duration (validateSettings data) = 5) \<and>
   (getProp data (str ''sensitivity'') = JNum PosInf \<longrightarrow> sensitivity (validateSettings data) = 10) \<and>
   (getProp data (str ''sensitivity'') = JNum NegInf \<longrightarrow> sensitivity (validateSettings data) = 1 / 10)"
  using validateSettings_inRange [of data]
    validateSettings_fixed [OF validateSettings_inRange, of data]
  by (simp add: validateSettings_fields invalid_num invalid_enum invalid_bool invalid_color)

text \<open>
  The amended C8 at an object whose only field is of the wrong type, and at one whose four
  numbers are all 4000.
\<close>

theorem validateSettings_witness:
  "bubbleSize (validateSettings (JObj [(str ''bubbleSize'', JStr (str ''60''))])) = 60 \<and>
   duration (validateSettings (JObj [(str ''bubbleSize'', JStr (str ''60''))])) = 60 \<and>
   gameMode (validateSettings (JObj [(str ''bubbleSize'', JStr (str ''60''))])) = TIME_TRIAL \<and>
   crosshairColor (validateSettings (JObj [(str ''bubbleSize'', JStr (str ''60''))]))
     = str ''#6366f1'' \<and>
   inRange (validateSettings (JObj [(str ''bubbleSize'', JStr (str ''60''))])) \<and>
   bubbleSize (validateSettings (JObj
     [(str ''bubbleSize'', JNum (Fin 4000)), (str ''spawnDelay'', JNum (Fin 4000)),
      (str ''duration'', JNum (Fin 4000)), (str ''sensitivity'', JNum (Fin 4000))])) = 300 \<and>
   spawnDelay (validateSettings (JObj
     [(str ''bubbleSize'', JNum (Fin 4000)), (str ''spawnDelay'', JNum (Fin 4000)),
      (str ''duration'', JNum (Fin 4000)), (str ''sensitivity'', JNum (Fin 4000))])) = 4000 \<and>
   duration (validateSettings (JObj
     [(str ''bubbleSize'', JNum (Fin 4000)), (str ''spawnDelay'', JNum (Fin 4000)),
      (str ''duration'', JNum (Fin 4000)), (str ''sensitivity'', JNum (Fin 4000))])) = 3600 \<and>
   sensitivity (validateSettings (JObj
     [(str ''bubbleSize'', JNum (Fin 4000)), (str ''spawnDelay'', JNum (Fin 4000)),
      (str ''duration'', JNum (Fin 4000)), (str ''sensitivity'', JNum (Fin 4000))])) = 10"
  using validateSettings_inRange_default_idempotent
    [of "JObj [(str ''bubbleSize'', JStr (str ''60''))]"]
    validateSettings_inRange_default_idempotent
    [of "JObj [(str ''bubbleSize'', JNum (Fin 4000)), (str ''spawnDelay'', JNum (Fin 4000)),
      (str ''duration'', JNum (Fin 4000)), (str ''sensitivity'', JNum (Fin 4000))]" 4000]
  by (simp add: str_def DEFAULT_SETTINGS_def)


section \<open>Spawning\<close>

lemma draw_in_range:
  fixes r b m :: real
  assumes "0 \<le> r" "r < 1"
  shows "(b \<le> m \<longrightarrow> b \<le> max b (r * (m - b) + b) \<and> max b (r * (m - b) + b) \<le> m) \<and>
         (m < b \<longrightarrow> max b (r * (m - b) + b) = b)"
proof (intro conjI impI)
  assume "b \<le> m"
  then have "r * (m - b) \<le> 1 * (m - b)"
    using assms by (intro mult_right_mono) simp_all
  then show "max b (r * (m - b) + b) \<le> m" using \<open>b \<le> m\<close> by simp
next
  assume "m < b"
  then have "r * (m - b) \<le> 0"
    using assms by (simp add: mult_nonneg_nonpos)
  then show "max b (r * (m - b) + b) = b" by simp
qed simp

text \<open>
  What \<^verbatim>\<open>spawnBubble\<close> achieves for the play area and the level it closes over: a
  target of the size of that level, if it fits into that area, lies inside it, and one that
  does not fit is put at the corner.
\<close>

lemma spawnPosition_inside:
  fixes rect :: Rect and settings :: GameSettings and lvl :: int and r1 r2 :: real
  assumes "0 \<le> r1" "r1 < 1" "0 \<le> r2" "r2 < 1"
  defines "sz \<equiv> bubbleSizeAt settings lvl"
    and "pos \<equiv> spawnPosition rect settings lvl r1 r2"
  shows "(sz \<le> width rect \<and> sz \<le> height rect \<longrightarrow> targetInside rect sz pos) \<and>
         (width rect < sz \<longrightarrow> x pos = rx rect) \<and>
         (height rect < sz \<longrightarrow> y pos = ry rect)"
proof -
  have px: "x pos = max (rx rect)
               (r1 * (rx rect + width rect - sz - rx rect) + rx rect)"
    and py: "y pos = max (ry rect)
               (r2 * (ry rect + height rect - sz - ry rect) + ry rect)"
    by (simp_all add: sz_def pos_def spawnPosition_def Let_def)
  show ?thesis
    using draw_in_range [OF assms(1,2), of "rx rect" "rx rect + width rect - sz"]
      draw_in_range [OF assms(3,4), of "ry rect" "ry rect + height rect - sz"]
    unfolding targetInside_def px py by auto
qed

text \<open>A smaller target at the same place lies inside as well.\<close>

lemma targetInside_smaller:
  "targetInside rect sz pos \<Longrightarrow> sz' \<le> sz \<Longrightarrow> targetInside rect sz' pos"
  by (auto simp: targetInside_def)

text \<open>The size of the target does not grow with the level.\<close>

lemma bubbleSizeAt_antimono: "lvl \<le> lvl' \<Longrightarrow> bubbleSizeAt settings lvl' \<le> bubbleSizeAt settings lvl"
  by (auto simp: bubbleSizeAt_def)


section \<open>The statistics under the events\<close>

lemma gameStats_render [simp]: "gameStats (render a) = gameStats a"
  by (simp add: render_def)

lemma gameStats_spawnBubble [simp]:
  "gameStats (spawnBubble settings cRect cLevel now r1 r2 a) = gameStats a"
  by (simp add: spawnBubble_def)

lemma gameStats_endGame [simp]: "gameStats (endGame a) = gameStats a"
  by (simp add: endGame_def)

lemma gameStats_startTimer [simp]: "gameStats (startTimer settings a) = gameStats a"
  by (simp add: startTimer_def)

lemma gameStats_togglePause [simp]: "gameStats (togglePause settings a) = gameStats a"
  by (simp add: togglePause_def)

lemma gameStats_handleHit [simp]:
  "gameStats (handleHit settings cStats cLast cRect now r1 r2 a)
     = hitUpdater settings (hitPoints settings cStats cLast now) (gameStats a)"
  by (simp add: handleHit_def Let_def)

lemma gameStats_handleMiss [simp]:
  "gameStats (handleMiss settings a) = missUpdater settings (gameStats a)"
  by (simp add: handleMiss_def Let_def)

lemma gameStats_handleSurrender [simp]:
  "gameStats (handleSurrender a) = (gameStats a) \<lparr> isPlaying := False, timeLeft := 0 \<rparr>"
  by (simp add: handleSurrender_def)

lemma gameStats_startGame [simp]: "gameStats (startGame settings a) = startStats settings"
  by (simp add: startGame_def)

text \<open>What an event can do to the statistics: one of the five updaters, or nothing.\<close>

lemma gameStats_step_cases:
  "gameStats (step settings a ev) = gameStats a
   \<or> (ev = Start \<and> \<not> isPlaying (gameStats a) \<and> gameStats (step settings a ev) = startStats settings)
   \<or> (isPlaying (gameStats a) \<and> \<not> isPaused a
        \<and> (\<exists>p. gameStats (step settings a ev) = hitUpdater settings p (gameStats a)))
   \<or> (isPlaying (gameStats a) \<and> \<not> isPaused a
        \<and> gameStats (step settings a ev) = missUpdater settings (gameStats a))
   \<or> (ev = Tick \<and> timerRef a \<and> gameStats (step settings a ev) = tickUpdater (gameStats a))
   \<or> (ev = Surrender \<and> isPlaying (gameStats a)
        \<and> gameStats (step settings a ev) = (gameStats a) \<lparr> isPlaying := False, timeLeft := 0 \<rparr>)"
  by (cases ev) (auto simp: step_def)

lemma level_hitUpdater: "level prev \<le> level (hitUpdater settings p prev)"
  by (simp add: hitUpdater_def Let_def)

lemma level_missUpdater [simp]: "level (missUpdater settings prev) = level prev"
  by (simp add: missUpdater_def Let_def)

lemma level_tickUpdater [simp]: "level (tickUpdater prev) = level prev"
  by (simp add: tickUpdater_def)

lemma level_step_mono:
  assumes "ev \<noteq> Start"
  shows "level (gameStats a) \<le> level (gameStats (step settings a ev))"
  using gameStats_step_cases [of settings a ev] assms
  by (auto simp: level_hitUpdater)

lemma hits_in_a_row:
  assumes "gameMode settings = SURVIVAL" "level (gameStats a) = 1" "combo (gameStats a) = 0"
  shows "length hs \<le> 10 \<Longrightarrow>
         combo (gameStats (foldl (hitArgs settings) a hs)) = int (length hs) \<and>
         level (gameStats (foldl (hitArgs settings) a hs)) = (if length hs = 10 then 2 else 1)"
proof (induction hs rule: rev_induct)
  case Nil
  then show ?case using assms by simp
next
  case (snoc h hs)
  then have ih: "combo (gameStats (foldl (hitArgs settings) a hs)) = int (length hs)"
      "level (gameStats (foldl (hitArgs settings) a hs)) = 1" and len: "length hs < 10"
    by auto
  obtain cStats cLast cRect now r1 r2 where h: "h = (cStats, cLast, cRect, now, r1, r2)"
    by (cases h) auto
  have m: "(int (length hs) + 1) mod 10 = 0 \<longleftrightarrow> length hs = 9"
    using len by presburger
  show ?case
    using ih len m assms(1) by (auto simp: h hitUpdater_def Let_def)
qed

text \<open>
  A hit as an event: a tap on the target, or a click on it, of a running and unpaused game
  applies the updater of a hit to the current state, with the points of the closure that ran.
\<close>

lemma hit_events:
  assumes "isPlaying (gameStats b)" "\<not> isPaused b" "bubblePos b \<noteq> None"
    "0 \<le> r1" "r1 < 1" "0 \<le> r2" "r2 < 1"
  shows "gameStats (step settings b (TapBubble now r1 r2))
           = hitUpdater settings (hitPoints settings (gameStats b) (lastClickTime b) now) (gameStats b)"
    and "gameStats (step settings b (Click now True r1 r2))
           = hitUpdater settings (hitPoints settings (clickStats b) (clickLast b) now) (gameStats b)"
  using assms by (auto simp: step_def handleHit_def spawnBubble_def render_def Let_def)

text \<open>
  C5. A hit raises the combo by exactly 1; in Survival the level rises by 1 exactly when
  the new combo is a multiple of 10, and in TimeTrial it stays; no event of a running game
  lowers the level; and from level 1 and combo 0, up to ten hits in a row in Survival leave
  the level at 1 before the tenth and make it 2 at the tenth.
\<close>

theorem hit_combo_level:
  "combo (gameStats (handleHit settings cStats cLast cRect now r1 r2 a)) = combo (gameStats a) + 1 \<and>
   level (gameStats (handleHit settings cStats cLast cRect now r1 r2 a))
     = (if gameMode settings = SURVIVAL \<and> (combo (gameStats a) + 1) mod 10 = 0
        then level (gameStats a) + 1 else level (gameStats a)) \<and>
   (ev \<noteq> Start \<longrightarrow> level (gameStats b) \<le> level (gameStats (step settings b ev))) \<and>
   (gameMode settings = SURVIVAL \<and> level (gameStats c) = 1 \<and> combo (gameStats c) = 0
      \<and> length hs \<le> 10 \<longrightarrow>
    combo (gameStats (foldl (hitArgs settings) c hs)) = int (length hs) \<and>
    level (gameStats (foldl (hitArgs settings) c hs)) = (if length hs = 10 then 2 else 1))"
proof -
  have "combo (gameStats (handleHit settings cStats cLast cRect now r1 r2 a)) = combo (gameStats a) + 1"
    by (simp add: hitUpdater_def Let_def)
  moreover have "level (gameStats (handleHit settings cStats cLast cRect now r1 r2 a))
     = (if gameMode settings = SURVIVAL \<and> (combo (gameStats a) + 1) mod 10 = 0
        then level (gameStats a) + 1 else level (gameStats a))"
    by (simp add: hitUpdater_def Let_def)
  ultimately show ?thesis
    using level_step_mono [of ev b settings] hits_in_a_row [of settings c hs]
    by blast
qed

theorem hit_combo_level_witness:
  "level (gameStats (step (DEFAULT_SETTINGS \<lparr> gameMode := SURVIVAL \<rparr>) mountApp Tick)) \<ge> 1 \<and>
   combo (gameStats (foldl (hitArgs (DEFAULT_SETTINGS \<lparr> gameMode := SURVIVAL \<rparr>)) mountApp
            (replicate 10 (mountStats, 0, boardRect mountApp, 5, 0, 0)))) = 10 \<and>
   level (gameStats (foldl (hitArgs (DEFAULT_SETTINGS \<lparr> gameMode := SURVIVAL \<rparr>)) mountApp
            (replicate 10 (mountStats, 0, boardRect mountApp, 5, 0, 0)))) = 2"
  using hit_combo_level [of "DEFAULT_SETTINGS \<lparr> gameMode := SURVIVAL \<rparr>" _ _ _ _ _ _ _ Tick
      mountApp mountApp "replicate 10 (mountStats, 0, boardRect mountApp, 5, 0, 0)"]
  by (simp add: mountApp_def mountStats_def)

section \<open>What every reachable state satisfies\<close>

lemma run_snoc: "run settings (evs @ [ev]) = step settings (run settings evs) ev"
  by (simp add: run_def)

lemma run_induct [consumes 0, case_names mount step]:
  assumes "P mountApp" and "\<And>a ev. P a \<Longrightarrow> P (step settings a ev)"
  shows "P (run settings evs)"
proof (induction evs rule: rev_induct)
  case Nil
  show ?case using assms(1) by (simp add: run_def)
next
  case (snoc ev evs)
  then show ?case using assms(2) by (simp add: run_snoc)
qed

lemma isPlaying_updaters:
  "isPlaying (hitUpdater settings p prev) = isPlaying prev"
  "isPlaying (missUpdater settings prev) = (isPlaying prev \<and> \<not> missEnds settings prev)"
  "isPlaying (tickUpdater prev) = (isPlaying prev \<and> 1 < timeLeft prev)"
  by (auto simp: hitUpdater_def missUpdater_def missEnds_def tickUpdater_def Let_def)

lemma flagsOk_step: "flagsOk settings a \<Longrightarrow> flagsOk settings (step settings a ev)"
  by (cases ev)
    (auto simp: flagsOk_def step_def render_def startGame_def startTimer_def endGame_def
      handleHit_def handleMiss_def handleSurrender_def togglePause_def spawnBubble_def
      isPlaying_updaters startStats_def Let_def)

lemma flagsOk_run: "flagsOk settings (run settings evs)"
  by (induction rule: run_induct)
    (simp_all add: flagsOk_def mountApp_def mountStats_def flagsOk_step [unfolded flagsOk_def])


lemma statsOk_updaters:
  "statsOk mountStats"
  "statsOk (startStats settings)"
  "statsOk s \<Longrightarrow> statsOk (hitUpdater settings p s)"
  "statsOk s \<Longrightarrow> statsOk (missUpdater settings s)"
  "statsOk s \<Longrightarrow> statsOk (tickUpdater s)"
  "statsOk s \<Longrightarrow> statsOk (s \<lparr> isPlaying := False, timeLeft := 0 \<rparr>)"
  by (auto simp: statsOk_def mountStats_def startStats_def hitUpdater_def missUpdater_def
      tickUpdater_def Let_def)

lemma statsOk_run: "statsOk (gameStats (run settings evs))"
proof (induction rule: run_induct)
  case mount
  show ?case by (simp add: mountApp_def statsOk_updaters)
next
  case (step a ev)
  then show ?case
    using gameStats_step_cases [of settings a ev] by (auto simp: statsOk_updaters)
qed

lemma livesOk_updaters:
  "livesOk mountStats"
  "livesOk (startStats settings)"
  "livesOk s \<Longrightarrow> livesOk (hitUpdater settings p s)"
  "gameMode settings = SURVIVAL \<Longrightarrow> livesOk s \<Longrightarrow> livesOk (missUpdater settings s)"
  "livesOk s \<Longrightarrow> livesOk (tickUpdater s)"
  "livesOk s \<Longrightarrow> livesOk (s \<lparr> isPlaying := False, timeLeft := 0 \<rparr>)"
  by (auto simp: livesOk_def mountStats_def startStats_def hitUpdater_def missUpdater_def
      tickUpdater_def Let_def)

lemma livesOk_run:
  assumes "gameMode settings = SURVIVAL"
  shows "livesOk (gameStats (run settings evs))"
proof (induction rule: run_induct)
  case mount
  show ?case by (simp add: mountApp_def livesOk_updaters)
next
  case (step a ev)
  then show ?case
    using gameStats_step_cases [of settings a ev] assms by (auto simp: livesOk_updaters)
qed

lemma timeOk_updaters:
  "timeOk mountStats"
  "0 < duration settings \<Longrightarrow> timeOk (startStats settings)"
  "timeOk s \<Longrightarrow> timeOk (hitUpdater settings p s)"
  "gameMode settings = TIME_TRIAL \<Longrightarrow> timeOk s \<Longrightarrow> timeOk (missUpdater settings s)"
  "timeOk s \<Longrightarrow> timeOk (tickUpdater s)"
  "timeOk s \<Longrightarrow> timeOk (s \<lparr> isPlaying := False, timeLeft := 0 \<rparr>)"
  by (auto simp: timeOk_def mountStats_def startStats_def hitUpdater_def missUpdater_def
      tickUpdater_def Let_def)

lemma timeOk_run:
  assumes "gameMode settings = TIME_TRIAL" "0 < duration settings"
  shows "timeOk (gameStats (run settings evs))"
proof (induction rule: run_induct)
  case mount
  show ?case by (simp add: mountApp_def timeOk_updaters)
next
  case (step a ev)
  then show ?case
    using gameStats_step_cases [of settings a ev] assms by (auto simp: timeOk_updaters)
qed


section \<open>Concrete games\<close>

text \<open>The scaling of \<open>double\<close> with its count of steps written as a numeral.\<close>

lemma normalise_numeral:
  "normalise (numeral k) m e =
     (if 2 ^ 53 \<le> m then normalise (pred_numeral k) (m / 2) (e + 1)
      else if m < 2 ^ 52 then normalise (pred_numeral k) (m * 2) (e - 1)
      else (m, e))"
  by (simp add: numeral_eq_Suc)

text \<open>A tenth as a double, and whole numbers and halves as themselves.\<close>

lemma double_examples:
  "double (1 / 10) = 3602879701896397 / 36028797018963968"
  "double 475 = 475" "double (5 / 2) = 5 / 2" "double 0 = 0" "double (- 3) = - 3"
  by (simp_all add: double_def normalise_numeral roundEven_def pow2_def Let_def)

lemmas eval_defs = run_def step_def render_def clickDepsOf_def startGame_def startTimer_def
  endGame_def handleHit_def handleMiss_def handleSurrender_def togglePause_def spawnBubble_def
  hitPoints_def hitUpdater_def missUpdater_def missEnds_def tickUpdater_def nextDelay_def
  startStats_def mountApp_def mountStats_def maxLifespan_def Math_round_def Let_def
  DEFAULT_SETTINGS_def SURVIVAL_SETTINGS_def updateBoardDimensions_def spawnPosition_def
  bubbleSizeAt_def speedBonus_def sizeMultiplier_def comboMultiplier_def
  double_def normalise_numeral roundEven_def pow2_def


text \<open>The state at the end of each sample game, computed once.\<close>

lemma lastLifeTrace_state:
  "run SURVIVAL_SETTINGS lastLifeTrace =
   \<lparr> gameStats = \<lparr> score = 475, combo = 1, maxCombo = 1, hits = 1, misses = 2,
                    timeLeft = 60, lives = 1, level = 1, isPlaying = True \<rparr>,
     isPaused = False, bubblePos = None, bubbleObj = 1,
     bubbleSpawnTime = 100, lastClickTime = 100,
     boardRect = \<lparr> rx = 100, ry = 100, width = 800, height = 600 \<rparr>,
     timerRef = False, spawnTimeouts = [(\<lparr> rx = 100, ry = 100, width = 800, height = 600 \<rparr>, 1)],
     clickStats = \<lparr> score = 475, combo = 1, maxCombo = 1, hits = 1, misses = 2,
                    timeLeft = 60, lives = 1, level = 1, isPlaying = True \<rparr>,
     clickLast = 100,
     clickRect = \<lparr> rx = 100, ry = 100, width = 800, height = 600 \<rparr>,
     clickDeps = (True, False, None, 1) \<rparr>"
  by (simp add: eval_defs lastLifeTrace_def)

lemma streakTrace_state:
  "run SURVIVAL_SETTINGS streakTrace =
   \<lparr> gameStats = \<lparr> score = 998, combo = 2, maxCombo = 2, hits = 2, misses = 2,
                    timeLeft = 60, lives = 1, level = 1, isPlaying = True \<rparr>,
     isPaused = False, bubblePos = None, bubbleObj = 2,
     bubbleSpawnTime = 700, lastClickTime = 700,
     boardRect = \<lparr> rx = 100, ry = 100, width = 800, height = 600 \<rparr>,
     timerRef = False, spawnTimeouts = [(\<lparr> rx = 100, ry = 100, width = 800, height = 600 \<rparr>, 1)],
     clickStats = \<lparr> score = 998, combo = 2, maxCombo = 2, hits = 2, misses = 2,
                    timeLeft = 60, lives = 1, level = 1, isPlaying = True \<rparr>,
     clickLast = 700,
     clickRect = \<lparr> rx = 100, ry = 100, width = 800, height = 600 \<rparr>,
     clickDeps = (True, False, None, 1) \<rparr>"
  by (simp add: eval_defs streakTrace_def)

lemma staleTrace_state:
  "run DEFAULT_SETTINGS staleTrace =
   \<lparr> gameStats = \<lparr> score = 425, combo = 0, maxCombo = 1, hits = 1, misses = 1,
                    timeLeft = 60, lives = 2, level = 1, isPlaying = True \<rparr>,
     isPaused = False, bubblePos = Some \<lparr> x = 100, y = 100 \<rparr>, bubbleObj = 2,
     bubbleSpawnTime = 400, lastClickTime = 400,
     boardRect = \<lparr> rx = 100, ry = 100, width = 800, height = 600 \<rparr>,
     timerRef = True, spawnTimeouts = [],
     clickStats = \<lparr> score = 475, combo = 1, maxCombo = 1, hits = 1, misses = 0,
                    timeLeft = 60, lives = 3, level = 1, isPlaying = True \<rparr>,
     clickLast = 400,
     clickRect = \<lparr> rx = 100, ry = 100, width = 800, height = 600 \<rparr>,
     clickDeps = (True, False, Some 2, 1) \<rparr>"
  by (simp add: eval_defs staleTrace_def)

lemma respawnTrace_state:
  "run DEFAULT_SETTINGS respawnTrace =
   \<lparr> gameStats = \<lparr> score = 475, combo = 1, maxCombo = 1, hits = 1, misses = 0,
                    timeLeft = 0, lives = 3, level = 1, isPlaying = False \<rparr>,
     isPaused = False, bubblePos = None, bubbleObj = 1,
     bubbleSpawnTime = 100, lastClickTime = 100,
     boardRect = \<lparr> rx = 100, ry = 100, width = 800, height = 600 \<rparr>,
     timerRef = False, spawnTimeouts = [(\<lparr> rx = 100, ry = 100, width = 800, height = 600 \<rparr>, 1)],
     clickStats = \<lparr> score = 475, combo = 1, maxCombo = 1, hits = 1, misses = 0,
                    timeLeft = 0, lives = 3, level = 1, isPlaying = False \<rparr>,
     clickLast = 100,
     clickRect = \<lparr> rx = 100, ry = 100, width = 800, height = 600 \<rparr>,
     clickDeps = (False, False, None, 1) \<rparr>"
  by (simp add: eval_defs respawnTrace_def)

lemma expiryTrace_state:
  "run SURVIVAL_SETTINGS expiryTrace =
   \<lparr> gameStats = \<lparr> score = 0, combo = 0, maxCombo = 0, hits = 0, misses = 2,
                    timeLeft = 60, lives = 1, level = 1, isPlaying = True \<rparr>,
     isPaused = False, bubblePos = Some \<lparr> x = 100, y = 100 \<rparr>, bubbleObj = 1,
     bubbleSpawnTime = 100, lastClickTime = 100,
     boardRect = \<lparr> rx = 100, ry = 100, width = 800, height = 600 \<rparr>,
     timerRef = False, spawnTimeouts = [],
     clickStats = \<lparr> score = 0, combo = 0, maxCombo = 0, hits = 0, misses = 2,
                    timeLeft = 60, lives = 1, level = 1, isPlaying = True \<rparr>,
     clickLast = 100,
     clickRect = \<lparr> rx = 100, ry = 100, width = 800, height = 600 \<rparr>,
     clickDeps = (True, False, Some 1, 1) \<rparr>"
  by (simp add: eval_defs expiryTrace_def)

lemma tenHits_state:
  "run SURVIVAL_SETTINGS ([Resize 1000 800, Start] @ tenHits) =
   \<lparr> gameStats = \<lparr> score = 6890, combo = 10, maxCombo = 10, hits = 10, misses = 0,
                    timeLeft = 60, lives = 3, level = 2, isPlaying = True \<rparr>,
     isPaused = False, bubblePos = None, bubbleObj = 10,
     bubbleSpawnTime = 10000, lastClickTime = 10000,
     boardRect = \<lparr> rx = 100, ry = 100, width = 800, height = 600 \<rparr>,
     timerRef = False, spawnTimeouts = [(\<lparr> rx = 100, ry = 100, width = 800, height = 600 \<rparr>, 1)],
     clickStats = \<lparr> score = 6890, combo = 10, maxCombo = 10, hits = 10, misses = 0,
                    timeLeft = 60, lives = 3, level = 2, isPlaying = True \<rparr>,
     clickLast = 10000,
     clickRect = \<lparr> rx = 100, ry = 100, width = 800, height = 600 \<rparr>,
     clickDeps = (True, False, None, 2) \<rparr>"
  by (simp add: eval_defs tenHits_def)

lemma restartTrace_state:
  "run SURVIVAL_SETTINGS restartTrace =
   \<lparr> gameStats = \<lparr> score = 0, combo = 0, maxCombo = 0, hits = 0, misses = 0,
                    timeLeft = 60, lives = 3, level = 1, isPlaying = True \<rparr>,
     isPaused = False, bubblePos = None, bubbleObj = 11,
     bubbleSpawnTime = 11000, lastClickTime = 11000,
     boardRect = \<lparr> rx = 100, ry = 100, width = 800, height = 600 \<rparr>,
     timerRef = False, spawnTimeouts = [(\<lparr> rx = 100, ry = 100, width = 800, height = 600 \<rparr>, 2)],
     clickStats = \<lparr> score = 0, combo = 0, maxCombo = 0, hits = 0, misses = 0,
                    timeLeft = 60, lives = 3, level = 1, isPlaying = True \<rparr>,
     clickLast = 11000,
     clickRect = \<lparr> rx = 100, ry = 100, width = 800, height = 600 \<rparr>,
     clickDeps = (True, False, None, 1) \<rparr>"
proof -
  have "run SURVIVAL_SETTINGS restartTrace
          = foldl (step SURVIVAL_SETTINGS)
              (run SURVIVAL_SETTINGS ([Resize 1000 800, Start] @ tenHits))
              [SpawnTimeout 11000 0 0 0, Surrender, Start]"
    by (simp add: restartTrace_def run_def)
  then show ?thesis
    unfolding tenHits_state by (simp add: eval_defs)
qed


section \<open>Misses\<close>

text \<open>
  C2, as stated, fails for the miss that takes the last life in Survival: after two misses
  and a hit the game runs with combo 1 and score 475, and the next miss ends it with the
  combo still 1 and the score still 475, not \<open>max 0 (475 - 50)\<close>.
\<close>

theorem last_miss_counterexample:
  "isPlaying (gameStats (run SURVIVAL_SETTINGS lastLifeTrace)) \<and>
   \<not> isPaused (run SURVIVAL_SETTINGS lastLifeTrace) \<and>
   combo (gameStats (run SURVIVAL_SETTINGS lastLifeTrace)) = 1 \<and>
   score (gameStats (run SURVIVAL_SETTINGS lastLifeTrace)) = 475 \<and>
   misses (gameStats (step SURVIVAL_SETTINGS (run SURVIVAL_SETTINGS lastLifeTrace)
                        (Click 300 False 0 0))) = 3 \<and>
   combo (gameStats (step SURVIVAL_SETTINGS (run SURVIVAL_SETTINGS lastLifeTrace)
                       (Click 300 False 0 0))) \<noteq> 0 \<and>
   score (gameStats (step SURVIVAL_SETTINGS (run SURVIVAL_SETTINGS lastLifeTrace)
                       (Click 300 False 0 0))) \<noteq> max 0 (475 - 50)"
  unfolding lastLifeTrace_state by (simp add: eval_defs)

lemma score_missUpdater: "0 \<le> score s \<Longrightarrow> 0 \<le> score (missUpdater settings s)"
  by (simp add: missUpdater_def Let_def)

lemma score_misses: "0 \<le> score (gameStats a) \<Longrightarrow> 0 \<le> score (gameStats ((handleMiss settings ^^ n) a))"
  by (induction n) (simp_all add: score_missUpdater)

text \<open>
  C2, amended. A miss that does not end the game (every miss in TimeTrial, and a miss in
  Survival with more than one life left) sets the combo to 0 and the score to
  \<open>max 0 (score - 50)\<close> and leaves the game running; the miss that takes the last life
  in Survival ends the game and leaves combo and score as they were; and no number of
  misses takes a score that is not negative below 0.
\<close>

theorem handleMiss_combo_score:
  "(\<not> missEnds settings (gameStats a) \<longrightarrow>
      combo (gameStats (handleMiss settings a)) = 0 \<and>
      score (gameStats (handleMiss settings a)) = max 0 (score (gameStats a) - 50) \<and>
      isPlaying (gameStats (handleMiss settings a)) = isPlaying (gameStats a)) \<and>
   (missEnds settings (gameStats a) \<longrightarrow>
      combo (gameStats (handleMiss settings a)) = combo (gameStats a) \<and>
      score (gameStats (handleMiss settings a)) = score (gameStats a) \<and>
      \<not> isPlaying (gameStats (handleMiss settings a))) \<and>
   (0 \<le> score (gameStats a) \<longrightarrow> 0 \<le> score (gameStats ((handleMiss settings ^^ n) a)))"
  using score_misses [where a = a and settings = settings and n = n]
  by (simp add: missUpdater_def missEnds_def Let_def)

text \<open>
  The amended C2 at a first miss in TimeTrial and at the last life in Survival.
\<close>

theorem handleMiss_combo_score_witness:
  "combo (gameStats (handleMiss DEFAULT_SETTINGS (run DEFAULT_SETTINGS [Resize 1000 800, Start]))) = 0 \<and>
   score (gameStats (handleMiss DEFAULT_SETTINGS (run DEFAULT_SETTINGS [Resize 1000 800, Start]))) = 0 \<and>
   \<not> isPlaying (gameStats (handleMiss SURVIVAL_SETTINGS (run SURVIVAL_SETTINGS lastLifeTrace))) \<and>
   score (gameStats (handleMiss SURVIVAL_SETTINGS (run SURVIVAL_SETTINGS lastLifeTrace))) = 475 \<and>
   0 \<le> score (gameStats ((handleMiss SURVIVAL_SETTINGS ^^ 7) (run SURVIVAL_SETTINGS lastLifeTrace)))"
proof -
  have a: "\<not> missEnds DEFAULT_SETTINGS (gameStats (run DEFAULT_SETTINGS [Resize 1000 800, Start]))"
    "score (gameStats (run DEFAULT_SETTINGS [Resize 1000 800, Start])) = 0"
    by (simp_all add: eval_defs)
  have b: "missEnds SURVIVAL_SETTINGS (gameStats (run SURVIVAL_SETTINGS lastLifeTrace))"
    "score (gameStats (run SURVIVAL_SETTINGS lastLifeTrace)) = 475"
    unfolding lastLifeTrace_state by (simp_all add: eval_defs)
  show ?thesis
    using handleMiss_combo_score [of DEFAULT_SETTINGS "run DEFAULT_SETTINGS [Resize 1000 800, Start]" 0]
      handleMiss_combo_score [of SURVIVAL_SETTINGS "run SURVIVAL_SETTINGS lastLifeTrace" 7]
      a b
    by simp
qed


section \<open>Lives\<close>

text \<open>
  C3, as stated, fails in TimeTrial: the first miss takes lives from 3 to 2, and after four
  misses the game still runs with lives at -1.
\<close>

theorem timeTrial_lives_counterexample:
  "gameMode DEFAULT_SETTINGS = TIME_TRIAL \<and>
   lives (gameStats (run DEFAULT_SETTINGS [Resize 1000 800, Start])) = 3 \<and>
   lives (gameStats (run DEFAULT_SETTINGS [Resize 1000 800, Start, Click 10 False 0 0])) = 2 \<and>
   isPlaying (gameStats (run DEFAULT_SETTINGS
      [Resize 1000 800, Start, Click 10 False 0 0, Click 20 False 0 0, Click 30 False 0 0,
       Click 40 False 0 0])) \<and>
   lives (gameStats (run DEFAULT_SETTINGS
      [Resize 1000 800, Start, Click 10 False 0 0, Click 20 False 0 0, Click 30 False 0 0,
       Click 40 False 0 0])) = - 1"
  by (simp add: eval_defs)

lemma lives_updaters:
  "lives (hitUpdater settings p s) = lives s"
  "lives (tickUpdater s) = lives s"
  "lives (missUpdater settings s)
     = (if gameMode settings = SURVIVAL \<and> lives s - 1 \<le> 0 then 0 else lives s - 1)"
  by (simp_all add: hitUpdater_def tickUpdater_def missUpdater_def Let_def)

lemma lives_step_changed:
  assumes "lives (gameStats (step settings a ev)) \<noteq> lives (gameStats a)"
  shows "(ev = Start \<and> \<not> isPlaying (gameStats a)) \<or>
         (isPlaying (gameStats a) \<and> \<not> isPaused a \<and>
          gameStats (step settings a ev) = missUpdater settings (gameStats a))"
  using gameStats_step_cases [of settings a ev] assms
  by (auto simp: lives_updaters)

lemma lives_step_le:
  assumes "ev \<noteq> Start" "gameMode settings = SURVIVAL \<longrightarrow> 0 \<le> lives (gameStats a)"
  shows "lives (gameStats (step settings a ev)) \<le> lives (gameStats a)"
  using gameStats_step_cases [of settings a ev] assms
  by (auto simp: lives_updaters)

lemma survival_end:
  assumes "gameMode settings = SURVIVAL" "flagsOk settings a" "livesOk (gameStats a)"
    "isPlaying (gameStats a)" "ev \<noteq> Start"
  shows "\<not> isPlaying (gameStats (step settings a ev))
           \<longleftrightarrow> lives (gameStats (step settings a ev)) = 0 \<or> ev = Surrender"
  using assms
  by (cases ev)
    (auto simp: flagsOk_def livesOk_def step_def handleSurrender_def
      isPlaying_updaters lives_updaters missEnds_def)

text \<open>
  C3, amended. In Survival, lives stays in [0,3] in every state the component reaches, and
  is 0 only when no game runs. In either mode no event of a running game raises lives,
  and lives changes only at the start of a game, which sets it to 3, or by the updater of a
  miss, which lowers it by 1 (to 0 at the last life in Survival, and without a floor in
  TimeTrial). In Survival an event ends a running game exactly when it brings lives to 0 or
  is the surrender.
\<close>

theorem lives_survival:
  "(gameMode settings = SURVIVAL \<longrightarrow>
      0 \<le> lives (gameStats (run settings evs)) \<and> lives (gameStats (run settings evs)) \<le> 3 \<and>
      (lives (gameStats (run settings evs)) = 0 \<longrightarrow> \<not> isPlaying (gameStats (run settings evs)))) \<and>
   (ev \<noteq> Start \<longrightarrow>
      lives (gameStats (step settings (run settings evs) ev)) \<le> lives (gameStats (run settings evs))) \<and>
   (lives (gameStats (step settings a ev)) \<noteq> lives (gameStats a) \<longrightarrow>
      (ev = Start \<and> \<not> isPlaying (gameStats a)) \<or>
      (isPlaying (gameStats a) \<and> \<not> isPaused a \<and>
       gameStats (step settings a ev) = missUpdater settings (gameStats a))) \<and>
   lives (missUpdater settings s)
     = (if gameMode settings = SURVIVAL \<and> lives s - 1 \<le> 0 then 0 else lives s - 1) \<and>
   (gameMode settings = SURVIVAL \<and> isPlaying (gameStats (run settings evs)) \<and> ev \<noteq> Start \<longrightarrow>
      (\<not> isPlaying (gameStats (step settings (run settings evs) ev))
         \<longleftrightarrow> lives (gameStats (step settings (run settings evs) ev)) = 0 \<or> ev = Surrender)) \<and>
   (\<not> isPlaying (gameStats a) \<longrightarrow> lives (gameStats (step settings a Start)) = 3)"
proof -
  have s: "gameMode settings = SURVIVAL \<Longrightarrow> livesOk (gameStats (run settings evs))"
    by (rule livesOk_run)
  have "gameMode settings = SURVIVAL \<longrightarrow>
      0 \<le> lives (gameStats (run settings evs)) \<and> lives (gameStats (run settings evs)) \<le> 3 \<and>
      (lives (gameStats (run settings evs)) = 0 \<longrightarrow> \<not> isPlaying (gameStats (run settings evs)))"
    using s statsOk_run [of settings evs] by (auto simp: livesOk_def statsOk_def)
  moreover have "ev \<noteq> Start \<longrightarrow>
      lives (gameStats (step settings (run settings evs) ev)) \<le> lives (gameStats (run settings evs))"
    using s lives_step_le [of ev settings "run settings evs"] by (auto simp: livesOk_def)
  moreover have "lives (gameStats (step settings a ev)) \<noteq> lives (gameStats a) \<longrightarrow>
      (ev = Start \<and> \<not> isPlaying (gameStats a)) \<or>
      (isPlaying (gameStats a) \<and> \<not> isPaused a \<and>
       gameStats (step settings a ev) = missUpdater settings (gameStats a))"
    using lives_step_changed [of settings a ev] by blast
  moreover have "gameMode settings = SURVIVAL \<and> isPlaying (gameStats (run settings evs)) \<and> ev \<noteq> Start \<longrightarrow>
      (\<not> isPlaying (gameStats (step settings (run settings evs) ev))
         \<longleftrightarrow> lives (gameStats (step settings (run settings evs) ev)) = 0 \<or> ev = Surrender)"
    using survival_end [of settings "run settings evs" ev] s flagsOk_run [of settings evs]
    by blast
  moreover have "\<not> isPlaying (gameStats a) \<longrightarrow> lives (gameStats (step settings a Start)) = 3"
    by (simp add: step_def startGame_def startStats_def render_def)
  ultimately show ?thesis
    by (simp add: lives_updaters)
qed

text \<open>
  The amended C3 at the miss that takes the last life.
\<close>

theorem lives_survival_witness:
  "lives (gameStats (run SURVIVAL_SETTINGS lastLifeTrace)) = 1 \<and>
   isPlaying (gameStats (run SURVIVAL_SETTINGS lastLifeTrace)) \<and>
   lives (gameStats (step SURVIVAL_SETTINGS (run SURVIVAL_SETTINGS lastLifeTrace)
      (Click 300 False 0 0))) = 0 \<and>
   \<not> isPlaying (gameStats (step SURVIVAL_SETTINGS (run SURVIVAL_SETTINGS lastLifeTrace)
      (Click 300 False 0 0)))"
proof -
  have e: "gameMode SURVIVAL_SETTINGS = SURVIVAL"
    "isPlaying (gameStats (run SURVIVAL_SETTINGS lastLifeTrace))"
    "lives (gameStats (run SURVIVAL_SETTINGS lastLifeTrace)) = 1"
    "lives (gameStats (step SURVIVAL_SETTINGS (run SURVIVAL_SETTINGS lastLifeTrace)
      (Click 300 False 0 0))) \<noteq> 1"
    unfolding lastLifeTrace_state by (simp_all add: eval_defs)
  show ?thesis
    using lives_survival [of SURVIVAL_SETTINGS lastLifeTrace "Click 300 False 0 0"
        "run SURVIVAL_SETTINGS lastLifeTrace" "gameStats (run SURVIVAL_SETTINGS lastLifeTrace)"] e
    by auto
qed


section \<open>Countdown and saved scores\<close>

lemma HALF_SECOND_SETTINGS_eq: "HALF_SECOND_SETTINGS = DEFAULT_SETTINGS \<lparr> duration := 11 / 2 \<rparr>"
  by (simp add: HALF_SECOND_SETTINGS_def validateSettings_def DEFAULT_SETTINGS_def str_def)

text \<open>
  C4, as stated, fails when the countdown is not a whole number. A stored duration of 5.5
  passes \<^verbatim>\<open>validateSettings\<close>; after five ticks half a second is left and the game runs,
  and the sixth tick takes off that half second only.
\<close>

theorem tick_fraction_counterexample:
  "gameMode HALF_SECOND_SETTINGS = TIME_TRIAL \<and>
   isPlaying (gameStats (run HALF_SECOND_SETTINGS [Resize 1000 800, Start, Tick, Tick, Tick, Tick, Tick])) \<and>
   \<not> isPaused (run HALF_SECOND_SETTINGS [Resize 1000 800, Start, Tick, Tick, Tick, Tick, Tick]) \<and>
   timeLeft (gameStats (run HALF_SECOND_SETTINGS [Resize 1000 800, Start, Tick, Tick, Tick, Tick, Tick])) = 1 / 2 \<and>
   timeLeft (gameStats (step HALF_SECOND_SETTINGS
               (run HALF_SECOND_SETTINGS [Resize 1000 800, Start, Tick, Tick, Tick, Tick, Tick]) Tick))
     \<noteq> 1 / 2 - 1"
  by (simp add: HALF_SECOND_SETTINGS_eq eval_defs)

lemma whole_updaters:
  "timeLeft mountStats \<in> \<int>"
  "duration settings \<in> \<int> \<Longrightarrow> timeLeft (startStats settings) \<in> \<int>"
  "timeLeft s \<in> \<int> \<Longrightarrow> timeLeft (hitUpdater settings p s) \<in> \<int>"
  "timeLeft s \<in> \<int> \<Longrightarrow> timeLeft (missUpdater settings s) \<in> \<int>"
  "timeLeft s \<in> \<int> \<Longrightarrow> timeLeft (tickUpdater s) \<in> \<int>"
  by (auto simp: mountStats_def startStats_def hitUpdater_def missUpdater_def
      tickUpdater_def Let_def)

text \<open>A duration of whole seconds leaves whole seconds on the clock at every moment.\<close>

lemma timeLeft_whole:
  assumes "duration settings \<in> \<int>"
  shows "timeLeft (gameStats (run settings evs)) \<in> \<int>"
proof (induction rule: run_induct)
  case mount
  show ?case by (simp add: mountApp_def whole_updaters)
next
  case (step a ev)
  then show ?case
    using gameStats_step_cases [of settings a ev] assms by (auto simp: whole_updaters)
qed

lemma whole_positive: "t \<in> \<int> \<Longrightarrow> 0 < t \<Longrightarrow> (1::real) \<le> t"
  by (auto elim!: Ints_cases)

lemma tick_step:
  assumes "flagsOk settings a" "gameMode settings = TIME_TRIAL"
    "isPlaying (gameStats a)" "\<not> isPaused a"
  shows "gameStats (step settings a Tick) = tickUpdater (gameStats a)"
  using assms by (simp add: flagsOk_def step_def)

text \<open>
  C4, amended. In TimeTrial with a positive duration, \<open>timeLeft\<close> is never negative, a
  game runs exactly while \<open>timeLeft\<close> is positive, and a tick of a running, unpaused game
  takes 1 off \<open>timeLeft\<close> when more than 1 is left and sets it to 0 otherwise, ending
  the game exactly in the second case; when the duration is a whole number of seconds,
  that tick always takes exactly 1.
\<close>

theorem countdown:
  assumes "gameMode settings = TIME_TRIAL" "0 < duration settings"
  shows "0 \<le> timeLeft (gameStats (run settings evs)) \<and>
         (isPlaying (gameStats (run settings evs)) \<longleftrightarrow> 0 < timeLeft (gameStats (run settings evs))) \<and>
         (isPlaying (gameStats (run settings evs)) \<and> \<not> isPaused (run settings evs) \<longrightarrow>
            timeLeft (gameStats (step settings (run settings evs) Tick))
              = (if timeLeft (gameStats (run settings evs)) \<le> 1 then 0
                 else timeLeft (gameStats (run settings evs)) - 1) \<and>
            (isPlaying (gameStats (step settings (run settings evs) Tick))
               \<longleftrightarrow> 1 < timeLeft (gameStats (run settings evs))) \<and>
            (duration settings \<in> \<int> \<longrightarrow>
               timeLeft (gameStats (step settings (run settings evs) Tick))
                 = timeLeft (gameStats (run settings evs)) - 1))"
  using timeOk_run [OF assms, of evs] tick_step [OF flagsOk_run assms(1), of evs]
    whole_positive [OF timeLeft_whole, of settings evs]
  by (auto simp: timeOk_def tickUpdater_def)

text \<open>
  The amended C4 at the third tick of a game of 60 seconds.
\<close>

theorem countdown_witness:
  "timeLeft (gameStats (run DEFAULT_SETTINGS [Resize 1000 800, Start, Tick, Tick])) = 58 \<and>
   timeLeft (gameStats (step DEFAULT_SETTINGS (run DEFAULT_SETTINGS [Resize 1000 800, Start, Tick, Tick]) Tick)) = 57 \<and>
   isPlaying (gameStats (step DEFAULT_SETTINGS (run DEFAULT_SETTINGS [Resize 1000 800, Start, Tick, Tick]) Tick))"
proof -
  have e: "gameMode DEFAULT_SETTINGS = TIME_TRIAL" "0 < duration DEFAULT_SETTINGS"
    "timeLeft (gameStats (run DEFAULT_SETTINGS [Resize 1000 800, Start, Tick, Tick])) = 58"
    "\<not> isPaused (run DEFAULT_SETTINGS [Resize 1000 800, Start, Tick, Tick])"
    by (simp_all add: eval_defs)
  show ?thesis
    using countdown [OF e(1,2), of "[Resize 1000 800, Start, Tick, Tick]"] e(3,4) by simp
qed

text \<open>
  C6, as stated, fails for a game with misses only: three misses end a Survival game, and
  the effect hands nothing to \<^verbatim>\<open>saveScore\<close>.
\<close>

theorem only_misses_counterexample:
  "\<not> isPlaying (gameStats (run SURVIVAL_SETTINGS
       [Resize 1000 800, Start, Click 10 False 0 0, Click 20 False 0 0, Click 30 False 0 0])) \<and>
   misses (gameStats (run SURVIVAL_SETTINGS
       [Resize 1000 800, Start, Click 10 False 0 0, Click 20 False 0 0, Click 30 False 0 0])) = 3 \<and>
   saveScoreEffect SURVIVAL_SETTINGS (gameStats (run SURVIVAL_SETTINGS
       [Resize 1000 800, Start, Click 10 False 0 0, Click 20 False 0 0, Click 30 False 0 0])) = None"
  by (simp add: eval_defs saveScoreEffect_def)

text \<open>
  C6, amended. The effect saves a record exactly when no game runs and at least one hit
  was made; the accuracy in the record is \<open>hits / (hits + misses) * 100\<close>; and the
  accuracy on screen is 100 when there was neither a hit nor a miss, where the formula
  of the effect, which then saves nothing, has 0.
\<close>

theorem saveScore_iff_hits:
  "(saveScoreEffect settings s \<noteq> None \<longleftrightarrow> \<not> isPlaying s \<and> 0 < hits s) \<and>
   (saveScoreEffect settings (gameStats (run settings evs)) = Some r \<longrightarrow>
      raccuracy r = real_of_int (hits (gameStats (run settings evs)))
                    / real_of_int (hits (gameStats (run settings evs))
                                   + misses (gameStats (run settings evs))) * 100) \<and>
   (hits s + misses s = 0 \<longrightarrow> accuracy s = 100 \<and> savedAccuracy s = 0)"
  using statsOk_run [of settings evs]
  by (auto simp: saveScoreEffect_def savedAccuracy_def accuracy_def statsOk_def)

text \<open>
  The amended C6 at a game of one hit and three misses, and at the mounted component.
\<close>

theorem saveScore_iff_hits_witness:
  "raccuracy (the (saveScoreEffect SURVIVAL_SETTINGS
      (gameStats (run SURVIVAL_SETTINGS (lastLifeTrace @ [Click 300 False 0 0]))))) = 25 \<and>
   accuracy mountStats = 100"
proof -
  have e: "saveScoreEffect SURVIVAL_SETTINGS
      (gameStats (run SURVIVAL_SETTINGS (lastLifeTrace @ [Click 300 False 0 0]))) \<noteq> None"
    "hits (gameStats (run SURVIVAL_SETTINGS (lastLifeTrace @ [Click 300 False 0 0]))) = 1"
    "misses (gameStats (run SURVIVAL_SETTINGS (lastLifeTrace @ [Click 300 False 0 0]))) = 3"
    "hits mountStats + misses mountStats = 0"
    unfolding run_snoc lastLifeTrace_state by (simp_all add: eval_defs saveScoreEffect_def)
  show ?thesis
    using saveScore_iff_hits [of SURVIVAL_SETTINGS mountStats
        "lastLifeTrace @ [Click 300 False 0 0]"] e
    by auto
qed


section \<open>Best combo\<close>

text \<open>
  C10, as stated, fails in its clause on misses: at the last life in Survival, with a
  combo of 2, a miss is counted and the combo stays 2.
\<close>

theorem miss_keeps_combo_counterexample:
  "isPlaying (gameStats (run SURVIVAL_SETTINGS streakTrace)) \<and>
   \<not> isPaused (run SURVIVAL_SETTINGS streakTrace) \<and>
   combo (gameStats (run SURVIVAL_SETTINGS streakTrace)) = 2 \<and>
   misses (gameStats (run SURVIVAL_SETTINGS streakTrace)) = 2 \<and>
   misses (gameStats (step SURVIVAL_SETTINGS (run SURVIVAL_SETTINGS streakTrace)
                        (Click 900 False 0 0))) = 3 \<and>
   combo (gameStats (step SURVIVAL_SETTINGS (run SURVIVAL_SETTINGS streakTrace)
                       (Click 900 False 0 0))) = 2"
  unfolding streakTrace_state by (simp add: eval_defs)

lemma maxCombo_updaters:
  "maxCombo (hitUpdater settings p s) = max (maxCombo s) (combo s + 1)"
  "maxCombo (missUpdater settings s) = maxCombo s"
  "maxCombo (tickUpdater s) = maxCombo s"
  "maxCombo (startStats settings) = 0"
  by (simp_all add: hitUpdater_def missUpdater_def tickUpdater_def startStats_def Let_def)

lemma combo_updaters:
  "combo (hitUpdater settings p s) = combo s + 1"
  "combo (missUpdater settings s) = (if missEnds settings s then combo s else 0)"
  "combo (tickUpdater s) = combo s"
  by (simp_all add: hitUpdater_def missUpdater_def missEnds_def tickUpdater_def Let_def)

text \<open>Within a game, the best combo after an event is the larger of the best before and the combo after.\<close>

lemma maxCombo_step:
  assumes "ev \<noteq> Start" "0 \<le> combo (gameStats a)" "combo (gameStats a) \<le> maxCombo (gameStats a)"
  shows "maxCombo (gameStats (step settings a ev))
           = max (maxCombo (gameStats a)) (combo (gameStats (step settings a ev)))"
  using gameStats_step_cases [of settings a ev] assms
  by (auto simp: maxCombo_updaters combo_updaters)

lemma combo_step_ok:
  assumes "0 \<le> combo (gameStats a)" "combo (gameStats a) \<le> maxCombo (gameStats a)"
  shows "0 \<le> combo (gameStats (step settings a ev)) \<and>
         combo (gameStats (step settings a ev)) \<le> maxCombo (gameStats (step settings a ev))"
  using gameStats_step_cases [of settings a ev] assms
  by (auto simp: maxCombo_updaters combo_updaters startStats_def)

lemma states_nonempty: "states settings a evs \<noteq> []"
  by (cases evs) simp_all

lemma maxCombo_states:
  assumes "Start \<notin> set evs" "0 \<le> combo (gameStats a)" "combo (gameStats a) \<le> maxCombo (gameStats a)"
  shows "maxCombo (gameStats (foldl (step settings) a evs))
           = max (maxCombo (gameStats a))
                 (Max (set (map (\<lambda>b. combo (gameStats b)) (states settings a evs))))"
  using assms
proof (induction evs arbitrary: a)
  case Nil
  then show ?case by simp
next
  case (Cons ev evs)
  let ?b = "step settings a ev"
  let ?C = "set (map (\<lambda>b. combo (gameStats b)) (states settings ?b evs))"
  have ne: "?C \<noteq> {}" using states_nonempty [of settings ?b evs] by simp
  have ok: "0 \<le> combo (gameStats ?b)" "combo (gameStats ?b) \<le> maxCombo (gameStats ?b)"
    using combo_step_ok [OF Cons.prems(2,3)] by simp_all
  have first: "combo (gameStats ?b) \<in> ?C" by (cases evs) simp_all
  then have ge: "combo (gameStats ?b) \<le> Max ?C" by simp
  have "maxCombo (gameStats (foldl (step settings) ?b evs)) = max (maxCombo (gameStats ?b)) (Max ?C)"
    using Cons.IH [OF _ ok] Cons.prems(1) by simp
  also have "maxCombo (gameStats ?b) = max (maxCombo (gameStats a)) (combo (gameStats ?b))"
    using maxCombo_step [OF _ Cons.prems(2,3)] Cons.prems(1) by auto
  finally have "maxCombo (gameStats (foldl (step settings) a (ev # evs)))
                 = max (maxCombo (gameStats a)) (Max ?C)"
    using ge by simp
  moreover have "Max (set (map (\<lambda>b. combo (gameStats b)) (states settings a (ev # evs))))
                   = max (combo (gameStats a)) (Max ?C)"
    using ne by simp
  ultimately show ?case using Cons.prems(3) by simp
qed


lemma maxCombo_step_mono:
  assumes "ev \<noteq> Start"
  shows "maxCombo (gameStats a) \<le> maxCombo (gameStats (step settings a ev))"
  using gameStats_step_cases [of settings a ev] assms
  by (auto simp: maxCombo_updaters)

text \<open>
  C10, amended. In every state the component reaches \<open>combo \<le> maxCombo\<close>; no event of
  a running game lowers \<open>maxCombo\<close>; a hit makes it the larger of itself and the new
  combo; a miss leaves it, and sets the combo to 0 unless it ends the game; a new game starts
  it at 0; and so after the events of a game \<open>maxCombo\<close> is the largest combo among
  the states of that game.
\<close>

theorem maxCombo_invariant:
  "combo (gameStats (run settings evs)) \<le> maxCombo (gameStats (run settings evs)) \<and>
   (ev \<noteq> Start \<longrightarrow>
      maxCombo (gameStats b) \<le> maxCombo (gameStats (step settings b ev))) \<and>
   maxCombo (gameStats (handleHit settings cStats cLast cRect now r1 r2 a))
     = max (maxCombo (gameStats a)) (combo (gameStats a) + 1) \<and>
   maxCombo (gameStats (handleMiss settings a)) = maxCombo (gameStats a) \<and>
   (\<not> missEnds settings (gameStats a) \<longrightarrow> combo (gameStats (handleMiss settings a)) = 0) \<and>
   maxCombo (gameStats (startGame settings a)) = 0 \<and>
   (\<not> isPlaying (gameStats (run settings evs)) \<and> Start \<notin> set session \<longrightarrow>
      maxCombo (gameStats (foldl (step settings) (step settings (run settings evs) Start) session))
        = Max (set (map (\<lambda>b. combo (gameStats b))
                 (states settings (step settings (run settings evs) Start) session))))"
proof -
  let ?s0 = "step settings (run settings evs) Start"
  let ?C = "set (map (\<lambda>b. combo (gameStats b)) (states settings ?s0 session))"
  have inv: "combo (gameStats (run settings evs)) \<le> maxCombo (gameStats (run settings evs))"
    using statsOk_run [of settings evs] by (simp add: statsOk_def)
  have mono: "ev \<noteq> Start \<longrightarrow> maxCombo (gameStats b) \<le> maxCombo (gameStats (step settings b ev))"
    using maxCombo_step_mono [of ev b settings] by blast
  have session: "maxCombo (gameStats (foldl (step settings) ?s0 session)) = Max ?C"
    if np: "\<not> isPlaying (gameStats (run settings evs))" and ns: "Start \<notin> set session"
  proof -
    have s0: "gameStats ?s0 = startStats settings"
      using np by (simp add: step_def)
    have "combo (gameStats ?s0) \<in> ?C" by (cases session) simp_all
    then have "0 \<le> Max ?C" using s0 by (simp add: startStats_def Max_ge_iff)
    moreover have "maxCombo (gameStats (foldl (step settings) ?s0 session))
                     = max (maxCombo (gameStats ?s0)) (Max ?C)"
      using maxCombo_states [OF ns, of ?s0 settings] s0 by (simp add: startStats_def)
    ultimately show ?thesis using s0 by (simp add: startStats_def)
  qed
  show ?thesis
    using inv mono session
    by (simp add: maxCombo_updaters combo_updaters)
qed

text \<open>
  The amended C10 at a game with two hits in a row.
\<close>

theorem maxCombo_invariant_witness:
  "maxCombo (gameStats (run SURVIVAL_SETTINGS streakTrace)) = 2 \<and>
   Max (set (map (\<lambda>b. combo (gameStats b))
          (states SURVIVAL_SETTINGS
             (step SURVIVAL_SETTINGS (run SURVIVAL_SETTINGS [Resize 1000 800]) Start)
             (drop 2 streakTrace)))) = 2 \<and>
   combo (gameStats (handleMiss SURVIVAL_SETTINGS (run SURVIVAL_SETTINGS [Resize 1000 800, Start]))) = 0 \<and>
   maxCombo (gameStats (run SURVIVAL_SETTINGS streakTrace))
     \<le> maxCombo (gameStats (step SURVIVAL_SETTINGS (run SURVIVAL_SETTINGS streakTrace)
                              (Click 900 False 0 0)))"
proof -
  have e: "\<not> isPlaying (gameStats (run SURVIVAL_SETTINGS [Resize 1000 800]))"
    "Start \<notin> set (drop 2 streakTrace)"
    "\<not> missEnds SURVIVAL_SETTINGS (gameStats (run SURVIVAL_SETTINGS [Resize 1000 800, Start]))"
    "Click 900 False 0 0 \<noteq> Start"
    "foldl (step SURVIVAL_SETTINGS)
       (step SURVIVAL_SETTINGS (run SURVIVAL_SETTINGS [Resize 1000 800]) Start)
       (drop 2 streakTrace) = run SURVIVAL_SETTINGS streakTrace"
    "maxCombo (gameStats (run SURVIVAL_SETTINGS streakTrace)) = 2"
    by (simp_all add: streakTrace_state) (simp_all add: streakTrace_state [symmetric] eval_defs streakTrace_def)
  show ?thesis
    using maxCombo_invariant [of SURVIVAL_SETTINGS "[Resize 1000 800]" "Click 900 False 0 0"
        "run SURVIVAL_SETTINGS streakTrace" _ _ _ _ _ _
        "run SURVIVAL_SETTINGS [Resize 1000 800, Start]" "drop 2 streakTrace"] e
    by simp
qed


section \<open>Points of a hit\<close>

text \<open>What a hit adds to the score: the points its handler computes from what it closes over.\<close>

lemma handleHit_points:
  "score (gameStats (handleHit settings cStats cLast cRect now r1 r2 a))
     = score (gameStats a) + hitPoints settings cStats cLast now"
  by (simp add: hitUpdater_def Let_def)

lemma hitPoints_combo:
  "combo s = combo s' \<Longrightarrow> hitPoints settings s cLast now = hitPoints settings s' cLast now"
  by (simp add: hitPoints_def comboMultiplier_def)

text \<open>A tap is handled with the combo of the state it happens in.\<close>

lemma tap_points:
  assumes "isPlaying (gameStats a)" "\<not> isPaused a" "bubblePos a \<noteq> None"
    "0 \<le> r1" "r1 < 1" "0 \<le> r2" "r2 < 1"
  shows "score (gameStats (step settings a (TapBubble now r1 r2)))
     = score (gameStats a) + hitPoints settings (gameStats a) (lastClickTime a) now"
proof -
  have "handle settings (TapBubble now r1 r2) a
          = handleHit settings (gameStats a) (lastClickTime a) (boardRect a) now r1 r2 a"
    using assms by auto
  then show ?thesis
    using assms(4-7) by (simp add: step_def handleHit_points del: gameStats_handleHit)
qed

text \<open>So is a click, as long as the memoised handler holds the combo of that state.\<close>

lemma click_points_fresh:
  assumes "isPlaying (gameStats a)" "\<not> isPaused a" "bubblePos a \<noteq> None"
    "0 \<le> r1" "r1 < 1" "0 \<le> r2" "r2 < 1"
    "combo (clickStats a) = combo (gameStats a)"
  shows "score (gameStats (step settings a (Click now True r1 r2)))
     = score (gameStats a) + hitPoints settings (gameStats a) (clickLast a) now"
proof -
  have "handle settings (Click now True r1 r2) a
          = handleHit settings (clickStats a) (clickLast a) (clickRect a) now r1 r2 a"
    using assms by auto
  then show ?thesis
    using assms(4-7) hitPoints_combo [OF assms(8), of settings "clickLast a" now]
    by (simp add: step_def handleHit_points del: gameStats_handleHit)
qed

text \<open>The first hit of a game, 100 ms after a target of size 60 appeared, adds 475.\<close>

lemma scenario_475:
  "score (gameStats (run DEFAULT_SETTINGS
     [Resize 1000 800, Start, SpawnTimeout 100 0 0 0, Click 200 True 0 0])) = 475"
  by (simp add: eval_defs)

text \<open>
  Where the rounding of doubles decides: at combo 4, 710 ms after a target of size 60
  appeared, the product is 451.5 in exact arithmetic and a little less in doubles, since
  \<^verbatim>\<open>1 + 4 * 0.1\<close> is the double below 1.4.
\<close>

lemma points_in_doubles:
  "hitPoints DEFAULT_SETTINGS (mountStats \<lparr> combo := 4 \<rparr>) 0 710 = 451 \<and>
   Math_round (real_of_int (100 + max 0 (100 - 710 div 10)) * (150 / 60) * (1 + 4 * (1 / 10))) = 452"
  by (simp add: eval_defs)

text \<open>
  C1. The points of a hit are \<^verbatim>\<open>Math.round((100 + speedBonus) * sizeMultiplier * comboMultiplier)\<close>,
  which is \<open>hitPoints\<close>; but the combo in it is the one the handler closes over
  (\<open>handleHit_points\<close> above), and on the desktop that is the combo of the last render in
  which \<^verbatim>\<open>handleGlobalClick\<close> was made anew. A miss changes none of its dependencies. So
  after a hit, the next target and a miss, the game runs with combo 0 and score 425 while
  the handler still holds combo 1, and a hit 5 ms after the target appeared adds 550, where
  the formula with the combo before the increment, 0, gives 500, in exact arithmetic and in
  doubles alike.
\<close>

theorem stale_combo_hit:
  "isPlaying (gameStats (run DEFAULT_SETTINGS staleTrace)) \<and>
   \<not> isPaused (run DEFAULT_SETTINGS staleTrace) \<and>
   bubblePos (run DEFAULT_SETTINGS staleTrace) = Some \<lparr> x = 100, y = 100 \<rparr> \<and>
   lastClickTime (run DEFAULT_SETTINGS staleTrace) = 400 \<and>
   combo (gameStats (run DEFAULT_SETTINGS staleTrace)) = 0 \<and>
   combo (clickStats (run DEFAULT_SETTINGS staleTrace)) = 1 \<and>
   score (gameStats (run DEFAULT_SETTINGS staleTrace)) = 425 \<and>
   score (gameStats (step DEFAULT_SETTINGS (run DEFAULT_SETTINGS staleTrace) (Click 405 True 0 0)))
     = 425 + 550 \<and>
   Math_round (real_of_int (100 + max 0 (100 - (405 - 400) div 10))
               * (150 / bubbleSize DEFAULT_SETTINGS) * (1 + real_of_int 0 * (1 / 10))) = 500 \<and>
   hitPoints DEFAULT_SETTINGS (gameStats (run DEFAULT_SETTINGS staleTrace)) 400 405 = 500"
  unfolding staleTrace_state by (simp add: eval_defs)


section \<open>Timers after the end\<close>

text \<open>
  C9. No timer body reads \<^verbatim>\<open>isPlaying\<close> when it fires. \<^verbatim>\<open>endGame\<close> clears the
  countdown, and the expiry poll is torn down with the effect (\<open>cancelled_timers\<close>
  below), but the timeout that a hit sets for the next target is not cancelled: after a hit
  and a surrender the game has ended with no target and one timeout pending, and when it
  fires it sets a target position and the two time stamps.
\<close>

theorem late_respawn:
  "\<not> isPlaying (gameStats (run DEFAULT_SETTINGS respawnTrace)) \<and>
   bubblePos (run DEFAULT_SETTINGS respawnTrace) = None \<and>
   length (spawnTimeouts (run DEFAULT_SETTINGS respawnTrace)) = 1 \<and>
   \<not> isPlaying (gameStats (step DEFAULT_SETTINGS (run DEFAULT_SETTINGS respawnTrace)
                            (SpawnTimeout 400 0 (1 / 2) (1 / 4)))) \<and>
   bubblePos (step DEFAULT_SETTINGS (run DEFAULT_SETTINGS respawnTrace)
                (SpawnTimeout 400 0 (1 / 2) (1 / 4))) = Some \<lparr> x = 470, y = 235 \<rparr> \<and>
   lastClickTime (step DEFAULT_SETTINGS (run DEFAULT_SETTINGS respawnTrace)
                (SpawnTimeout 400 0 (1 / 2) (1 / 4))) = 400 \<and>
   step DEFAULT_SETTINGS (run DEFAULT_SETTINGS respawnTrace) (SpawnTimeout 400 0 (1 / 2) (1 / 4))
     \<noteq> run DEFAULT_SETTINGS respawnTrace"
  unfolding respawnTrace_state by (simp add: eval_defs)

text \<open>
  The expiry poll calls \<^verbatim>\<open>spawnBubble\<close> after \<^verbatim>\<open>handleMiss\<close> whatever the miss
  does. When that miss takes the last life, the two time stamps are written, and the
  \<^verbatim>\<open>endGame\<close> of the updater, which runs last, takes away the position again.
\<close>

lemma expiry_at_last_life:
  "isPlaying (gameStats (run SURVIVAL_SETTINGS expiryTrace)) \<and>
   lives (gameStats (run SURVIVAL_SETTINGS expiryTrace)) = 1 \<and>
   lastClickTime (run SURVIVAL_SETTINGS expiryTrace) = 100 \<and>
   \<not> isPlaying (gameStats (step SURVIVAL_SETTINGS (run SURVIVAL_SETTINGS expiryTrace)
                            (Expire 5000 (1 / 2) (1 / 4)))) \<and>
   bubblePos (step SURVIVAL_SETTINGS (run SURVIVAL_SETTINGS expiryTrace)
                (Expire 5000 (1 / 2) (1 / 4))) = None \<and>
   bubbleSpawnTime (step SURVIVAL_SETTINGS (run SURVIVAL_SETTINGS expiryTrace)
                (Expire 5000 (1 / 2) (1 / 4))) = 5000 \<and>
   lastClickTime (step SURVIVAL_SETTINGS (run SURVIVAL_SETTINGS expiryTrace)
                (Expire 5000 (1 / 2) (1 / 4))) = 5000"
  unfolding expiryTrace_state by (simp add: eval_defs)

text \<open>The two timers that are cancelled: once the game has ended they change nothing.\<close>

lemma rendered_run: "clickDepsOf (run settings evs) = clickDeps (run settings evs)"
proof (induction rule: run_induct)
  case mount
  show ?case by (simp add: clickDepsOf_def mountApp_def mountStats_def)
next
  case (step a ev)
  then show ?case by (auto simp: step_def render_def clickDepsOf_def split: option.splits)
qed

lemma cancelled_timers:
  assumes "\<not> isPlaying (gameStats (run settings evs))"
  shows "step settings (run settings evs) Tick = run settings evs"
    and "step settings (run settings evs) (Expire now r1 r2) = run settings evs"
  using assms flagsOk_run [of settings evs] rendered_run [of settings evs]
  by (simp_all add: step_def render_def flagsOk_def)


section \<open>Where a target is put, and the size it is shown with\<close>

text \<open>
  C7. The target is shown, and hit, with the size \<^verbatim>\<open>bubbleSize\<close> in TimeTrial and
  \<^verbatim>\<open>max(30, bubbleSize - level*2)\<close> in Survival, for the level at that time
  (\<open>shownSize\<close>); \<^verbatim>\<open>spawnBubble\<close> puts it so that a target of the size of the level
  that it closes over lies inside the play area (\<open>spawnPosition_inside\<close> above). The
  \<^verbatim>\<open>spawnBubble\<close> that \<^verbatim>\<open>startGame\<close> schedules is the one of the render before the
  start, with the level the last game ended at. So after a Survival game that reached level
  2, the first target of the next game is put for a size of 56 and shown with 58: with a
  first draw of 1023/1024 its right edge is at 901.27, and the play area ends at 900.
\<close>

theorem restart_target_outside:
  "level (gameStats (run SURVIVAL_SETTINGS ([Resize 1000 800, Start] @ tenHits))) = 2 \<and>
   isPlaying (gameStats (run SURVIVAL_SETTINGS restartTrace)) \<and>
   level (gameStats (run SURVIVAL_SETTINGS restartTrace)) = 1 \<and>
   boardRect (run SURVIVAL_SETTINGS restartTrace)
     = \<lparr> rx = 100, ry = 100, width = 800, height = 600 \<rparr> \<and>
   spawnTimeouts (run SURVIVAL_SETTINGS restartTrace)
     = [(\<lparr> rx = 100, ry = 100, width = 800, height = 600 \<rparr>, 2)] \<and>
   bubblePos (step SURVIVAL_SETTINGS (run SURVIVAL_SETTINGS restartTrace)
                (SpawnTimeout 11300 0 (1023 / 1024) 0))
     = Some \<lparr> x = 107939 / 128, y = 100 \<rparr> \<and>
   shownSize SURVIVAL_SETTINGS (step SURVIVAL_SETTINGS (run SURVIVAL_SETTINGS restartTrace)
                (SpawnTimeout 11300 0 (1023 / 1024) 0)) = 58 \<and>
   \<not> targetInside \<lparr> rx = 100, ry = 100, width = 800, height = 600 \<rparr> 58
       \<lparr> x = 107939 / 128, y = 100 \<rparr> \<and>
   targetInside \<lparr> rx = 100, ry = 100, width = 800, height = 600 \<rparr> 56
       \<lparr> x = 107939 / 128, y = 100 \<rparr>"
  unfolding restartTrace_state tenHits_state
  by (simp add: eval_defs shownSize_def targetInside_def)

end
